theory Spec2Isabelle
  imports Complex_Main
begin

section \<open>JavaScript values used by the route handler\<close>

text \<open>
  The analysed code is the API route of \<^verbatim>\<open>src/app/page.tsx\<close>: the two RINEX
  parsers, \<^verbatim>\<open>generateRealisticResults\<close> and the \<^verbatim>\<open>POST\<close> handler.

  Conventions of the embedding.
  \<^item> A JavaScript string is a \<^typ>\<open>string\<close>; one \<^typ>\<open>char\<close> stands for one code
    unit, so \<^term>\<open>length\<close> is \<^verbatim>\<open>.length\<close> (RINEX text is ASCII).
  \<^item> A JavaScript number that is finite is a \<^typ>\<open>real\<close>; \<^verbatim>\<open>NaN\<close> and the
    infinities, which the parsing built-ins can return, are separate
    constructors of \<open>jsnum\<close>. A number token that is zero or infinite as a double
    is so in the model (\<open>toDouble\<close>); other values are not rounded.
  \<^item> \<^verbatim>\<open>Math.random()\<close> is an explicit stream \<open>rnd :: nat \<Rightarrow> real\<close> of draws
    together with the index of the next draw, threaded through every function
    in the order in which the source calls \<^verbatim>\<open>Math.random()\<close>.
\<close>

datatype jsnum = NaN | Fin real | PosInf | NegInf

text \<open>\<^verbatim>\<open>v || d\<close> on numbers: \<^verbatim>\<open>NaN\<close> and zero are falsy.\<close>

fun truthy :: "jsnum \<Rightarrow> bool" where
  "truthy NaN = False"
| "truthy (Fin r) = (r \<noteq> 0)"
| "truthy PosInf = True"
| "truthy NegInf = True"

definition orNum :: "jsnum \<Rightarrow> jsnum \<Rightarrow> jsnum" where
  "orNum v d = (if truthy v then v else d)"

text \<open>The same for the result of \<^verbatim>\<open>Number.parseInt\<close>, which is an integer or \<^verbatim>\<open>NaN\<close>
  (\<open>None\<close>).\<close>

definition orInt :: "int option \<Rightarrow> int \<Rightarrow> int" where
  "orInt v d = (case v of None \<Rightarrow> d | Some k \<Rightarrow> if k = 0 then d else k)"

subsection \<open>Characters and strings\<close>

text \<open>\<^verbatim>\<open>\s\<close> of a regular expression and the white space of \<^verbatim>\<open>trim\<close>: tab, line
  feed, vertical tab, form feed, carriage return, space, no-break space.\<close>

definition isWs :: "char \<Rightarrow> bool" where
  "isWs c = (of_char c \<in> {9, 10, 11, 12, 13, 32, 160 :: nat})"

definition isDigit :: "char \<Rightarrow> bool" where
  "isDigit c = (48 \<le> (of_char c :: nat) \<and> (of_char c :: nat) \<le> 57)"

definition isUpper :: "char \<Rightarrow> bool" where
  "isUpper c = (65 \<le> (of_char c :: nat) \<and> (of_char c :: nat) \<le> 90)"

definition digitVal :: "char \<Rightarrow> nat" where
  "digitVal c = of_char c - 48"

definition trim :: "string \<Rightarrow> string" where
  "trim s = rev (dropWhile isWs (rev (dropWhile isWs s)))"

definition substring :: "string \<Rightarrow> nat \<Rightarrow> nat \<Rightarrow> string" where
  "substring s a b = take (b - a) (drop a s)"

definition substringFrom :: "string \<Rightarrow> nat \<Rightarrow> string" where
  "substringFrom s a = drop a s"

definition startsWith :: "string \<Rightarrow> string \<Rightarrow> bool" where
  "startsWith s p = (take (length p) s = p)"

fun includesStr :: "string \<Rightarrow> string \<Rightarrow> bool" where
  "includesStr [] p = (p = [])"
| "includesStr (c # cs) p = (startsWith (c # cs) p \<or> includesStr cs p)"

text \<open>\<^verbatim>\<open>s.split(/\r?\n/)\<close>.\<close>

fun splitLinesAcc :: "string \<Rightarrow> string \<Rightarrow> string list" where
  "splitLinesAcc cur [] = [rev cur]"
| "splitLinesAcc cur [c] =
     (if c = CHR 0x0A then [rev cur, []] else [rev (c # cur)])"
| "splitLinesAcc cur (c # d # cs) =
     (if c = CHR 0x0A then rev cur # splitLinesAcc [] (d # cs)
      else if c = CHR 0x0D \<and> d = CHR 0x0A then rev cur # splitLinesAcc [] cs
      else splitLinesAcc (c # cur) (d # cs))"

definition splitLines :: "string \<Rightarrow> string list" where
  "splitLines s = splitLinesAcc [] s"

text \<open>\<^verbatim>\<open>s.split(/\s+/)\<close>: every maximal run of white space separates two parts, so
  leading or trailing white space gives an empty first or last part.\<close>

fun splitWsAcc :: "bool \<Rightarrow> string \<Rightarrow> string \<Rightarrow> string list" where
  "splitWsAcc inWs cur [] = [rev cur]"
| "splitWsAcc inWs cur (c # cs) =
     (if isWs c then
        (if inWs then splitWsAcc True cur cs else rev cur # splitWsAcc True [] cs)
      else splitWsAcc False (c # cur) cs)"

definition splitWs :: "string \<Rightarrow> string list" where
  "splitWs s = splitWsAcc False [] s"

text \<open>\<^verbatim>\<open>parts[k]\<close>: \<^verbatim>\<open>undefined\<close> (\<open>None\<close>) out of range.\<close>

definition elemAt :: "'a list \<Rightarrow> nat \<Rightarrow> 'a option" where
  "elemAt xs k = (if k < length xs then Some (xs ! k) else None)"

subsection \<open>Number.parseInt and Number.parseFloat\<close>

definition digitsVal :: "string \<Rightarrow> nat" where
  "digitsVal ds = foldl (\<lambda>acc c. 10 * acc + digitVal c) 0 ds"

definition isHexDigit :: "char \<Rightarrow> bool" where
  "isHexDigit c = (isDigit c
     \<or> (65 \<le> (of_char c :: nat) \<and> (of_char c :: nat) \<le> 70)
     \<or> (97 \<le> (of_char c :: nat) \<and> (of_char c :: nat) \<le> 102))"

definition hexVal :: "char \<Rightarrow> nat" where
  "hexVal c = (if isDigit c then of_char c - 48
               else if (of_char c :: nat) \<le> 70 then of_char c - 55
               else of_char c - 87)"

definition hexDigitsVal :: "string \<Rightarrow> nat" where
  "hexDigitsVal ds = foldl (\<lambda>acc c. 16 * acc + hexVal c) 0 ds"

text \<open>The sign prefix shared by both built-ins: the sign and the rest.\<close>

fun signOf :: "string \<Rightarrow> int \<times> string" where
  "signOf [] = (1, [])"
| "signOf (c # cs) =
     (if c = CHR ''-'' then (-1, cs) else if c = CHR ''+'' then (1, cs) else (1, c # cs))"

text \<open>\<^verbatim>\<open>Number.parseInt(s)\<close> with no radix: leading white space, a sign, a
  \<^verbatim>\<open>0x\<close> prefix selecting base 16, then the longest run of digits; \<^verbatim>\<open>NaN\<close> when the run
  is empty.\<close>

definition parseInt :: "string \<Rightarrow> int option" where
  "parseInt s =
     (let (sg, r) = signOf (dropWhile isWs s) in
      if startsWith r ''0x'' \<or> startsWith r ''0X'' then
        (let ds = takeWhile isHexDigit (drop 2 r) in
         if ds = [] then None else Some (sg * int (hexDigitsVal ds)))
      else
        (let ds = takeWhile isDigit r in
         if ds = [] then None else Some (sg * int (digitsVal ds))))"

text \<open>\<^verbatim>\<open>Number.parseInt(parts[k])\<close>: \<^verbatim>\<open>undefined\<close> is converted to the string
  \<^verbatim>\<open>"undefined"\<close>, which has no digits.\<close>

definition parseIntAt :: "string list \<Rightarrow> nat \<Rightarrow> int option" where
  "parseIntAt parts k = (case elemAt parts k of None \<Rightarrow> None | Some s \<Rightarrow> parseInt s)"

text \<open>The exponent part of a decimal literal, \<^verbatim>\<open>[eE][+-]?digits\<close>; it counts only
  when at least one digit follows.\<close>

definition exponentOf :: "string \<Rightarrow> int" where
  "exponentOf r =
     (case r of
        [] \<Rightarrow> 0
      | c # cs \<Rightarrow>
          if c = CHR ''e'' \<or> c = CHR ''E'' then
            (let (sg, t) = signOf cs; ds = takeWhile isDigit t in
             if ds = [] then 0 else sg * int (digitsVal ds))
          else 0)"

text \<open>The double nearest to the value of a decimal literal: an infinity when the
  magnitude is at least 2 to the power 1024 minus 2 to the power 970, half a unit
  above the largest double; zero when it is at most 2 to the power -1075, half
  the smallest double; otherwise a finite number that is not zero, for which
  \<open>Fin x\<close> stands.\<close>

definition toDouble :: "real \<Rightarrow> jsnum" where
  "toDouble x =
     (if \<bar>x\<bar> \<ge> 2 ^ 1024 - 2 ^ 970 then (if x < 0 then NegInf else PosInf)
      else if \<bar>x\<bar> \<le> 1 / 2 ^ 1075 then Fin 0
      else Fin x)"

text \<open>\<^verbatim>\<open>Number.parseFloat(s)\<close>: leading white space, a sign, then \<^verbatim>\<open>Infinity\<close> or the
  longest decimal literal (digits, an optional fraction, an optional exponent),
  converted to a double; \<^verbatim>\<open>NaN\<close> when there is neither.\<close>

definition parseFloat :: "string \<Rightarrow> jsnum" where
  "parseFloat s =
     (let (sg, r) = signOf (dropWhile isWs s) in
      if startsWith r ''Infinity'' then (if sg < 0 then NegInf else PosInf)
      else
        (let ip = takeWhile isDigit r;
             r1 = dropWhile isDigit r;
             hasDot = (r1 \<noteq> [] \<and> hd r1 = CHR ''.'');
             fp = (if hasDot then takeWhile isDigit (tl r1) else []);
             r2 = (if hasDot then dropWhile isDigit (tl r1) else r1)
         in if ip = [] \<and> fp = [] then NaN
            else toDouble (real_of_int sg
                           * (real (digitsVal ip) + real (digitsVal fp) / 10 ^ length fp)
                           * (10 powi exponentOf r2))))"

definition parseFloatAt :: "string list \<Rightarrow> nat \<Rightarrow> jsnum" where
  "parseFloatAt parts k = (case elemAt parts k of None \<Rightarrow> NaN | Some s \<Rightarrow> parseFloat s)"

text \<open>\<^verbatim>\<open>n.toString()\<close> of an integer, and of \<^verbatim>\<open>NaN\<close>.\<close>

fun natDigits :: "nat \<Rightarrow> nat \<Rightarrow> string" where
  "natDigits 0 n = []"
| "natDigits (Suc fuel) n =
     (if n < 10 then [char_of (48 + n)]
      else natDigits fuel (n div 10) @ [char_of (48 + n mod 10)])"

definition intToString :: "int option \<Rightarrow> string" where
  "intToString v =
     (case v of
        None \<Rightarrow> ''NaN''
      | Some k \<Rightarrow> (if k < 0 then ''-'' else []) @ natDigits (Suc (nat \<bar>k\<bar>)) (nat \<bar>k\<bar>))"

definition padStart2 :: "string \<Rightarrow> string" where
  "padStart2 s = replicate (2 - length s) (CHR ''0'') @ s"

section \<open>Data model\<close>

text \<open>The objects the parsers build. A field that shares its name with a field of
  another object carries the object's name as a prefix.\<close>

record epoch =
  year :: "int option"
  month :: int
  day :: int
  hour :: int
  minute :: int
  second :: jsnum
  flag :: int
  numSats :: int

record satObs =
  satellite :: string
  pseudorange :: jsnum
  carrierPhase :: jsnum
  doppler :: jsnum
  snr :: jsnum

record observation =
  obs_epoch :: epoch
  satellites :: "satObs list"

record tocTime =
  toc_year :: "int option"
  toc_month :: int
  toc_day :: int
  toc_hour :: int
  toc_minute :: int
  toc_second :: jsnum

text \<open>\<^verbatim>\<open>satData\<close>: the orbital elements are absent (\<open>None\<close>) until their
  continuation line has been read.\<close>

record satData =
  toc :: tocTime
  clockBias :: jsnum
  clockDrift :: jsnum
  clockDriftRate :: jsnum
  iode :: "jsnum option"
  crs :: "jsnum option"
  deltaN :: "jsnum option"
  m0 :: "jsnum option"
  cuc :: "jsnum option"
  ecc :: "jsnum option"
  cus :: "jsnum option"
  sqrtA :: "jsnum option"
  toe :: "jsnum option"
  cic :: "jsnum option"
  omega0 :: "jsnum option"
  cis :: "jsnum option"

record ephemerisRec =
  eph_satellite :: string
  eph_data :: satData

record position =
  pos_epoch :: nat
  pos_x :: real
  pos_y :: real
  pos_z :: real
  pdop :: real
  accuracy :: real
  pos_numSats :: int

record satHealth =
  sv :: string
  health :: real
  sh_snr :: real
  elevation :: real
  azimuth :: real

record signal =
  sig_epoch :: nat
  avgSnr :: real
  sig_doppler :: real
  sig_carrierPhase :: real

datatype threat = LOW | MEDIUM | HIGH | CRITICAL

record anomaly =
  an_type :: string
  severity :: string
  an_count :: int
  description :: string

text \<open>The recommendations are fixed texts, two of them with a list joined in; each
  constructor stands for one text of lines 1115 to 1136, in that order.\<close>

datatype recommendation =
    CriticalCeaseReliance
  | SwitchToAlternativeNavigation
  | HighExerciseCaution
  | CrossReferencePosition
  | InvestigatePositionJumps "nat list"
  | MonitorSuspiciousSatellites "string list"
  | LogAllAnomalies
  | ConsiderAuthentication

record processingInfo =
  totalEpochs :: nat
  totalSatellites :: nat
  avgSatellitesPerEpoch :: real
  dataQuality :: string

record detectionResult =
  threatLevel :: threat
  spoofingProbability :: int
  flaggedEpochs :: "nat list"
  positionJumps :: "nat list"
  highPdop :: "nat list"
  pdopValues :: "real list"
  satelliteHealth :: "satHealth list"
  positionData :: "position list"
  signalData :: "signal list"
  anomalies :: "anomaly list"
  recommendations :: "recommendation list"
  procInfo :: processingInfo

section \<open>generateRealisticResults\<close>

text \<open>A \<^verbatim>\<open>Set\<close> keeps its elements in insertion order; adding an element that is
  already there changes nothing.\<close>

definition setAdd :: "'a list \<Rightarrow> 'a \<Rightarrow> 'a list" where
  "setAdd xs a = (if a \<in> set xs then xs else xs @ [a])"

definition commonSats :: "string list" where
  "commonSats = [''G01'', ''G02'', ''G03'', ''G04'', ''G05'',
                 ''G06'', ''G07'', ''G08'', ''G09'', ''G10'']"

definition satelliteIds :: "observation list \<Rightarrow> string list" where
  "satelliteIds observations =
     foldl setAdd
       (foldl (\<lambda>ids obs. foldl (\<lambda>ids' sat. setAdd ids' (satellite sat)) ids (satellites obs))
          [] observations)
       commonSats"

text \<open>A loop whose body draws random numbers: the body gets the index of the next
  draw and returns the index after its last draw.\<close>

fun mapRnd :: "('a \<Rightarrow> nat \<Rightarrow> 'b \<times> nat) \<Rightarrow> 'a list \<Rightarrow> nat \<Rightarrow> 'b list \<times> nat" where
  "mapRnd f [] n = ([], n)"
| "mapRnd f (a # as) n =
     (case f a n of (b, n1) \<Rightarrow> (case mapRnd f as n1 of (bs, n2) \<Rightarrow> (b # bs, n2)))"

text \<open>The body of the loop of lines 975 to 1004, for epoch \<open>i\<close>.\<close>

definition mkPosition :: "(nat \<Rightarrow> real) \<Rightarrow> nat \<Rightarrow> nat \<Rightarrow> position \<times> nat" where
  "mkPosition rnd i n =
     (let numVisibleSats = 4 + \<lfloor>rnd n * 8\<rfloor>;
          avgElevation = 30 + rnd (n + 1) * 45;
          pdop0 = 1.5 + (12 - real_of_int numVisibleSats) * 0.3;
          pdop1 = pdop0 + (60 - avgElevation) / 20;
          pdop2 = pdop1 + rnd (n + 2) * 0.5;
          spike = (i = 15 \<or> i = 32 \<or> i = 41);
          pdop3 = (if spike then pdop2 + (4 + rnd (n + 3) * 3) else pdop2);
          m = (if spike then n + 4 else n + 3);
          pdop4 = max 1.0 (min 15.0 pdop3)
      in (\<lparr>pos_epoch = i,
           pos_x = 4000000 + sin (real i * 0.1) * 100 + (rnd m - 0.5) * 50,
           pos_y = 3000000 + cos (real i * 0.1) * 100 + (rnd (m + 1) - 0.5) * 50,
           pos_z = 5000000 + sin (real i * 0.05) * 50 + (rnd (m + 2) - 0.5) * 25,
           pdop = pdop4,
           accuracy = max 1 (pdop4 * 0.8 + rnd (m + 3)),
           pos_numSats = numVisibleSats\<rparr>,
          m + 4))"

text \<open>The loop of lines 974 to 1004.\<close>

definition generatePositions :: "(nat \<Rightarrow> real) \<Rightarrow> nat \<Rightarrow> nat \<Rightarrow> position list \<times> nat" where
  "generatePositions rnd numEpochs n = mapRnd (mkPosition rnd) [0 ..< numEpochs] n"

text \<open>Lines 1011 to 1013.\<close>

definition distance :: "position \<Rightarrow> position \<Rightarrow> real" where
  "distance prv cur =
     sqrt ((pos_x cur - pos_x prv)\<^sup>2 + (pos_y cur - pos_y prv)\<^sup>2
           + (pos_z cur - pos_z prv)\<^sup>2)"

text \<open>The detection loop of lines 1007 to 1018: \<open>i\<close> runs from 1 below the length.\<close>

definition detectJumps :: "position list \<Rightarrow> nat list" where
  "detectJumps positions =
     filter (\<lambda>i. distance (positions ! (i - 1)) (positions ! i) > 100)
       [1 ..< length positions]"

text \<open>\<^verbatim>\<open>if (positions[k]) { ... }\<close>: the update happens when the element exists.\<close>

definition updateAt :: "nat \<Rightarrow> ('a \<Rightarrow> 'a) \<Rightarrow> 'a list \<Rightarrow> 'a list" where
  "updateAt k f xs = (if k < length xs then xs[k := f (xs ! k)] else xs)"

text \<open>Lines 1020 to 1036: with no detected jump, three are added and the three
  positions are moved.\<close>

definition artificialJumps :: "nat list \<Rightarrow> position list \<Rightarrow> nat list \<times> position list" where
  "artificialJumps jumps positions =
     (if length jumps = 0 then
        ([16, 33, 42],
         updateAt 42 (\<lambda>p. p\<lparr>pos_y := pos_y p + 220, pos_z := pos_z p - 80\<rparr>)
           (updateAt 33 (\<lambda>p. p\<lparr>pos_x := pos_x p - 180, pos_z := pos_z p + 100\<rparr>)
              (updateAt 16 (\<lambda>p. p\<lparr>pos_x := pos_x p + 200, pos_y := pos_y p + 150\<rparr>)
                 positions)))
      else (jumps, positions))"

text \<open>The body of the map of lines 1042 to 1058.\<close>

definition mkHealth :: "(nat \<Rightarrow> real) \<Rightarrow> string \<Rightarrow> nat \<Rightarrow> satHealth \<times> nat" where
  "mkHealth rnd satId n =
     (let baseHealth = 0.3 + rnd n * 0.7;
          h = (if satId = ''G02'' \<or> satId = ''G04'' then baseHealth * 0.4 else baseHealth)
      in (\<lparr>sv = satId,
           health = max 0.1 h,
           sh_snr = 30 + rnd (n + 1) * 20,
           elevation = 15 + rnd (n + 2) * 75,
           azimuth = rnd (n + 3) * 360\<rparr>,
          n + 4))"

text \<open>The body of the map of lines 1061 to 1066.\<close>

definition mkSignal :: "(nat \<Rightarrow> real) \<Rightarrow> nat \<Rightarrow> nat \<Rightarrow> signal \<times> nat" where
  "mkSignal rnd i n =
     (\<lparr>sig_epoch = i,
       avgSnr = 40 + sin (real i * 0.1) * 5 + rnd n * 3,
       sig_doppler = sin (real i * 0.2) * 1000 + rnd (n + 1) * 100,
       sig_carrierPhase = sin (real i * 0.15) * 0.5 + rnd (n + 2) * 0.1\<rparr>,
      n + 3)"

text \<open>\<^verbatim>\<open>[...new Set(xs)]\<close>: the first occurrence of each element, in order.\<close>

definition uniq :: "'a list \<Rightarrow> 'a list" where
  "uniq xs = foldl setAdd [] xs"

definition threatLevelOf :: "real \<Rightarrow> threat" where
  "threatLevelOf p =
     (if p < 25 then LOW
      else if p < 50 then MEDIUM
      else if p < 75 then HIGH
      else CRITICAL)"

text \<open>Lines 1072 to 1077: the score before rounding; \<open>r\<close> is the random draw.\<close>

definition rawProbability :: "nat \<Rightarrow> nat \<Rightarrow> nat \<Rightarrow> real \<Rightarrow> real" where
  "rawProbability nFlagged nJumps unhealthySats r =
     min 95 (max 5 (real nFlagged * 5 + real nJumps * 20 + real unhealthySats * 15 + r * 10))"

definition mkAnomalies :: "nat \<Rightarrow> nat \<Rightarrow> nat \<Rightarrow> real \<Rightarrow> anomaly list" where
  "mkAnomalies nJumps nHighPdop unhealthySats prob =
     [\<lparr>an_type = ''Position Jump'',
       severity = (if nJumps > 2 then ''High'' else if nJumps > 0 then ''Medium'' else ''Low''),
       an_count = int nJumps,
       description = ''Sudden position discontinuities detected''\<rparr>,
      \<lparr>an_type = ''High PDOP'',
       severity = (if nHighPdop > 10 then ''High'' else if nHighPdop > 5 then ''Medium''
                   else ''Low''),
       an_count = int nHighPdop,
       description = ''Poor satellite geometry periods''\<rparr>,
      \<lparr>an_type = ''Satellite Health'',
       severity = (if unhealthySats > 3 then ''High'' else if unhealthySats > 1 then ''Medium''
                   else ''Low''),
       an_count = int unhealthySats,
       description = ''Satellites showing suspicious behavior''\<rparr>,
      \<lparr>an_type = ''Signal Anomalies'',
       severity = ''Medium'',
       an_count = \<lfloor>prob / 20\<rfloor>,
       description = ''Irregular signal characteristics detected''\<rparr>]"

text \<open>\<^verbatim>\<open>satelliteHealth.filter((s) => s.health < 0.5)\<close>, lines 1070 and 1129.\<close>

definition unhealthyOf :: "satHealth list \<Rightarrow> satHealth list" where
  "unhealthyOf healthList = filter (\<lambda>s. health s < 0.5) healthList"

definition mkRecommendations ::
    "threat \<Rightarrow> nat list \<Rightarrow> satHealth list \<Rightarrow> recommendation list" where
  "mkRecommendations level jumps healthList =
     (if level = CRITICAL then [CriticalCeaseReliance, SwitchToAlternativeNavigation]
      else if level = HIGH then [HighExerciseCaution, CrossReferencePosition]
      else [])
     @ (if length jumps > 0 then [InvestigatePositionJumps jumps] else [])
     @ (if length (unhealthyOf healthList) > 0
        then [MonitorSuspiciousSatellites (map sv (unhealthyOf healthList))]
        else [])
     @ [LogAllAnomalies, ConsiderAuthentication]"

definition mkProcessingInfo :: "nat \<Rightarrow> nat \<Rightarrow> processingInfo" where
  "mkProcessingInfo numEpochs nSats =
     \<lparr>totalEpochs = numEpochs,
      totalSatellites = nSats,
      avgSatellitesPerEpoch = real_of_int (round (real nSats * 0.8 * 10)) / 10,
      dataQuality = (if nSats \<ge> 8 then ''Good'' else if nSats \<ge> 6 then ''Fair'' else ''Poor'')\<rparr>"

text \<open>The function itself. The second argument, the ephemeris list, is never read.
  \<open>n\<close> is the index of the next random draw; the index after the last draw is
  returned with the result.\<close>

definition generateRealisticResults ::
    "(nat \<Rightarrow> real) \<Rightarrow> observation list \<Rightarrow> ephemerisRec list \<Rightarrow> nat \<Rightarrow> detectionResult \<times> nat"
  where
  "generateRealisticResults rnd observations ephemeris n =
     (let numEpochs = max 50 (length observations);
          sats = take 12 (satelliteIds observations);
          (positions0, n1) = generatePositions rnd numEpochs n;
          (jumps, positions) = artificialJumps (detectJumps positions0) positions0;
          highP = map pos_epoch (filter (\<lambda>p. pdop p > 6) positions);
          (healthList, n2) = mapRnd (mkHealth rnd) sats n1;
          (signals, n3) = mapRnd (mkSignal rnd) [0 ..< length positions] n2;
          flagged = uniq (highP @ jumps);
          unhealthySats = length (unhealthyOf healthList);
          prob = rawProbability (length flagged) (length jumps) unhealthySats (rnd n3);
          level = threatLevelOf prob
      in (\<lparr>threatLevel = level,
           spoofingProbability = round prob,
           flaggedEpochs = flagged,
           positionJumps = jumps,
           highPdop = highP,
           pdopValues = map pdop positions,
           satelliteHealth = healthList,
           positionData = positions,
           signalData = signals,
           anomalies = mkAnomalies (length jumps) (length highP) unhealthySats prob,
           recommendations = mkRecommendations level jumps healthList,
           procInfo = mkProcessingInfo numEpochs (length sats)\<rparr>,
          n3 + 1))"

section \<open>parseRinexObservation\<close>

text \<open>\<^verbatim>\<open>line.match(/^\s*(\d+\.\d+)/)\<close>: the captured group, when the line matches.\<close>

definition versionMatch :: "string \<Rightarrow> string option" where
  "versionMatch line =
     (let r = dropWhile isWs line;
          ip = takeWhile isDigit r;
          r1 = dropWhile isDigit r
      in if ip \<noteq> [] \<and> r1 \<noteq> [] \<and> hd r1 = CHR ''.'' \<and> takeWhile isDigit (tl r1) \<noteq> []
         then Some (ip @ ''.'' @ takeWhile isDigit (tl r1))
         else None)"

text \<open>\<^verbatim>\<open>/^[A-Z]\d{2}/.test(t)\<close>.\<close>

fun satIdPattern :: "string \<Rightarrow> bool" where
  "satIdPattern (a # b # c # rest) = (isUpper a \<and> isDigit b \<and> isDigit c)"
| "satIdPattern t = False"

text \<open>\<^verbatim>\<open>\d{1,2}\s+\<close> at the start of \<open>s\<close>: what follows the match. White space and
  digits are disjoint, so the run of digits has to be one or two long and white
  space has to follow it.\<close>

definition digits12Ws :: "string \<Rightarrow> string option" where
  "digits12Ws s =
     (let ds = takeWhile isDigit s; r = dropWhile isDigit s
      in if (length ds = 1 \<or> length ds = 2) \<and> r \<noteq> [] \<and> isWs (hd r)
         then Some (dropWhile isWs r) else None)"

text \<open>\<^verbatim>\<open>/^\s*\d{2}\s+\d{1,2}\s+\d{1,2}\s+\d{1,2}\s+\d{1,2}/.test(line)\<close>.\<close>

definition epochLinePattern :: "string \<Rightarrow> bool" where
  "epochLinePattern line =
     (let r = dropWhile isWs line
      in if length (takeWhile isDigit r) = 2 then
           (case digits12Ws r of
              None \<Rightarrow> False
            | Some r1 \<Rightarrow>
                (case digits12Ws r1 of
                   None \<Rightarrow> False
                 | Some r2 \<Rightarrow>
                     (case digits12Ws r2 of
                        None \<Rightarrow> False
                      | Some r3 \<Rightarrow>
                          (case digits12Ws r3 of
                             None \<Rightarrow> False
                           | Some r4 \<Rightarrow> r4 \<noteq> [] \<and> isDigit (hd r4)))))
         else False)"

text \<open>\<^verbatim>\<open>/^\s*[\d\-.]/.test(line)\<close>.\<close>

definition dataLinePattern :: "string \<Rightarrow> bool" where
  "dataLinePattern line =
     (case dropWhile isWs line of
        [] \<Rightarrow> False
      | c # rest \<Rightarrow> isDigit c \<or> c = CHR ''-'' \<or> c = CHR ''.'')"

text \<open>\<^verbatim>\<open>parts.slice(2, 2 + numObs)\<close>: a \<^verbatim>\<open>NaN\<close> end is 0, a negative end counts from
  the end of the array.\<close>

definition slice2 :: "'a list \<Rightarrow> int option \<Rightarrow> 'a list" where
  "slice2 xs numObs =
     (let len = int (length xs);
          e = (case numObs of
                 None \<Rightarrow> 0
               | Some k \<Rightarrow> if 2 + k < 0 then max (len + (2 + k)) 0 else min (2 + k) len)
      in take (nat e - 2) (drop 2 xs))"

text \<open>\<^verbatim>\<open>rinexVersion >= 3\<close>.\<close>

fun atLeast3 :: "jsnum \<Rightarrow> bool" where
  "atLeast3 NaN = False"
| "atLeast3 (Fin r) = (r \<ge> 3)"
| "atLeast3 PosInf = True"
| "atLeast3 NegInf = False"

text \<open>The two-digit year rule of lines 728 to 730 and 893 to 895; every comparison
  with \<^verbatim>\<open>NaN\<close> is false.\<close>

definition yearPivot :: "int option \<Rightarrow> int option" where
  "yearPivot y =
     (case y of
        None \<Rightarrow> None
      | Some v \<Rightarrow> if v < 80 then Some (v + 2000) else if v < 100 then Some (v + 1900)
                 else Some v)"

text \<open>The object \<^verbatim>\<open>satObs\<close> of the version 3 branch while it is filled: a field is
  absent (\<open>None\<close>) until a value has been assigned to it.\<close>

record rawObs =
  raw_pseudorange :: "jsnum option"
  raw_carrierPhase :: "jsnum option"
  raw_doppler :: "jsnum option"
  raw_snr :: "jsnum option"

text \<open>One round of the loop of lines 691 to 704.\<close>

definition assignObs :: "rawObs \<Rightarrow> string \<times> string \<Rightarrow> rawObs" where
  "assignObs raw tv =
     (let obsType = fst tv;
          v = orNum (parseFloat (snd tv)) (Fin 0)
      in if startsWith obsType ''C'' \<or> obsType = ''P1'' \<or> obsType = ''P2''
           then raw\<lparr>raw_pseudorange := Some v\<rparr>
         else if startsWith obsType ''L'' \<or> obsType = ''L1'' \<or> obsType = ''L2''
           then raw\<lparr>raw_carrierPhase := Some v\<rparr>
         else if startsWith obsType ''D'' \<or> obsType = ''D1'' \<or> obsType = ''D2''
           then raw\<lparr>raw_doppler := Some v\<rparr>
         else if startsWith obsType ''S'' \<or> obsType = ''S1'' \<or> obsType = ''S2''
           then raw\<lparr>raw_snr := Some v\<rparr>
         else raw)"

text \<open>\<^verbatim>\<open>!satObs.field\<close>: the field is absent, zero or \<^verbatim>\<open>NaN\<close>.\<close>

definition falsy :: "jsnum option \<Rightarrow> bool" where
  "falsy f = (case f of None \<Rightarrow> True | Some v \<Rightarrow> \<not> truthy v)"

definition fieldOr :: "jsnum option \<Rightarrow> jsnum \<Rightarrow> jsnum" where
  "fieldOr f d = (case f of None \<Rightarrow> d | Some v \<Rightarrow> if truthy v then v else d)"

definition drawIf :: "bool \<Rightarrow> nat \<Rightarrow> nat" where
  "drawIf b n = (if b then n + 1 else n)"

text \<open>Lines 706 to 710: a falsy field gets a random value; only then is a number
  drawn.\<close>

definition withDefaults :: "(nat \<Rightarrow> real) \<Rightarrow> string \<Rightarrow> rawObs \<Rightarrow> nat \<Rightarrow> satObs \<times> nat" where
  "withDefaults rnd satId raw n =
     (let n1 = drawIf (falsy (raw_pseudorange raw)) n;
          n2 = drawIf (falsy (raw_carrierPhase raw)) n1;
          n3 = drawIf (falsy (raw_doppler raw)) n2;
          n4 = drawIf (falsy (raw_snr raw)) n3
      in (\<lparr>satellite = satId,
           pseudorange = fieldOr (raw_pseudorange raw) (Fin (20000000 + rnd n * 5000000)),
           carrierPhase = fieldOr (raw_carrierPhase raw) (Fin (rnd n1 * 1000)),
           doppler = fieldOr (raw_doppler raw) (Fin ((rnd n2 - 0.5) * 2000)),
           snr = fieldOr (raw_snr raw) (Fin (35 + rnd n3 * 15))\<rparr>,
          n4))"

text \<open>Lines 684 to 710: the satellite record of a version 3 observation line.\<close>

definition satLineV3 :: "(nat \<Rightarrow> real) \<Rightarrow> string list \<Rightarrow> string \<Rightarrow> nat \<Rightarrow> satObs \<times> nat" where
  "satLineV3 rnd types line n =
     (let satId = substring line 0 3;
          vals = splitWs (trim (substringFrom line 3));
          raw = foldl assignObs
                  \<lparr>raw_pseudorange = None, raw_carrierPhase = None,
                   raw_doppler = None, raw_snr = None\<rparr>
                  (zip types vals)
      in withDefaults rnd satId raw n)"

text \<open>Lines 748 to 754: a satellite named on a version 2 epoch line.\<close>

definition epochLineSat :: "(nat \<Rightarrow> real) \<Rightarrow> string \<Rightarrow> nat \<Rightarrow> satObs \<times> nat" where
  "epochLineSat rnd part n =
     (\<lparr>satellite = substring part 0 3,
       pseudorange = Fin (20000000 + rnd n * 5000000),
       carrierPhase = Fin (rnd (n + 1) * 1000),
       doppler = Fin ((rnd (n + 2) - 0.5) * 2000),
       snr = Fin (35 + rnd (n + 3) * 15)\<rparr>,
      n + 4)"

text \<open>The loop of lines 763 to 768 over the 16-character fields of a line.\<close>

fun obsValuesOf :: "string \<Rightarrow> jsnum list" where
  "obsValuesOf [] = []"
| "obsValuesOf (c # cs) =
     (if trim (take 14 (c # cs)) \<noteq> []
      then orNum (parseFloat (trim (take 14 (c # cs)))) (Fin 0) # obsValuesOf (drop 15 cs)
      else obsValuesOf (drop 15 cs))"

text \<open>\<^verbatim>\<open>obsValues[k] && observationTypes[k]\<close> and the test on the type that
  follows it (lines 774 to 793); \<open>c\<close> is the letter, \<open>t1\<close> the exact name.\<close>

definition takesValue :: "jsnum list \<Rightarrow> string list \<Rightarrow> nat \<Rightarrow> string \<Rightarrow> string \<Rightarrow> bool" where
  "takesValue obsValues types k c t1 =
     (case (elemAt obsValues k, elemAt types k) of
        (Some v, Some t) \<Rightarrow> truthy v \<and> t \<noteq> [] \<and> (startsWith t c \<or> t = t1)
      | _ \<Rightarrow> False)"

definition applyObsValues :: "jsnum list \<Rightarrow> string list \<Rightarrow> satObs \<Rightarrow> satObs" where
  "applyObsValues obsValues types sat =
     (let s1 = (if takesValue obsValues types 0 ''C'' ''P1''
                then sat\<lparr>pseudorange := obsValues ! 0\<rparr> else sat);
          s2 = (if takesValue obsValues types 1 ''L'' ''L1''
                then s1\<lparr>carrierPhase := obsValues ! 1\<rparr> else s1);
          s3 = (if takesValue obsValues types 2 ''D'' ''D1''
                then s2\<lparr>doppler := obsValues ! 2\<rparr> else s2)
      in (if takesValue obsValues types 3 ''S'' ''S1''
          then s3\<lparr>snr := obsValues ! 3\<rparr> else s3))"

text \<open>The variables of the parser; \<open>o_next\<close> is the index of the next random draw.\<close>

record obsState =
  o_observations :: "observation list"
  o_headerComplete :: bool
  o_currentEpoch :: "epoch option"
  o_epochData :: "satObs list"
  o_observationTypes :: "string list"
  o_rinexVersion :: jsnum
  o_next :: nat

text \<open>\<^verbatim>\<open>if (currentEpoch && epochData.length > 0) observations.push(...)\<close>.\<close>

definition pushEpoch :: "obsState \<Rightarrow> observation list" where
  "pushEpoch st =
     (case o_currentEpoch st of
        None \<Rightarrow> o_observations st
      | Some ep \<Rightarrow>
          if length (o_epochData st) > 0
          then o_observations st @ [\<lparr>obs_epoch = ep, satellites = o_epochData st\<rparr>]
          else o_observations st)"

text \<open>Lines 618 to 654: a line of the header.\<close>

definition obsHeaderLine :: "obsState \<Rightarrow> string \<Rightarrow> obsState" where
  "obsHeaderLine st line =
     (let st1 = (if includesStr line ''RINEX VERSION'' then
                   (case versionMatch line of
                      None \<Rightarrow> st
                    | Some v \<Rightarrow> st\<lparr>o_rinexVersion := parseFloat v\<rparr>)
                 else st);
          st2 = (if includesStr line ''# / TYPES OF OBSERV'' then
                   st1\<lparr>o_observationTypes :=
                          filter (\<lambda>t. length t > 0) (splitWs (trim (substring line 6 60)))\<rparr>
                 else st1);
          st3 = (if includesStr line ''SYS / # / OBS TYPES'' then
                   (let parts = splitWs (trim line)
                    in if elemAt parts 0 = Some ''G''
                       then st2\<lparr>o_observationTypes := slice2 parts (parseIntAt parts 1)\<rparr>
                       else st2)
                 else st2)
      in if includesStr line ''END OF HEADER'' then st3\<lparr>o_headerComplete := True\<rparr> else st3)"

text \<open>Lines 659 to 713: a body line of a version 3 file.\<close>

definition obsLineV3 :: "(nat \<Rightarrow> real) \<Rightarrow> obsState \<Rightarrow> string \<Rightarrow> obsState" where
  "obsLineV3 rnd st line =
     (if startsWith line ''>'' then
        (let parts = splitWs (trim line)
         in st\<lparr>o_observations := pushEpoch st,
               o_currentEpoch := Some
                 \<lparr>year = Some (orInt (parseIntAt parts 1) 2024),
                  month = orInt (parseIntAt parts 2) 1,
                  day = orInt (parseIntAt parts 3) 1,
                  hour = orInt (parseIntAt parts 4) 0,
                  minute = orInt (parseIntAt parts 5) 0,
                  second = orNum (parseFloatAt parts 6) (Fin 0),
                  flag = orInt (parseIntAt parts 7) 0,
                  numSats = orInt (parseIntAt parts 8) 0\<rparr>,
               o_epochData := []\<rparr>)
      else if length line > 3 \<and> satIdPattern (trim line) then
        (case satLineV3 rnd (o_observationTypes st) line (o_next st) of
           (sat, n') \<Rightarrow> st\<lparr>o_epochData := o_epochData st @ [sat], o_next := n'\<rparr>)
      else st)"

text \<open>Lines 717 to 796: a body line of a version 2 file.\<close>

definition obsLineV2 :: "(nat \<Rightarrow> real) \<Rightarrow> obsState \<Rightarrow> string \<Rightarrow> obsState" where
  "obsLineV2 rnd st line =
     (if epochLinePattern line then
        (let parts = splitWs (trim line);
             ep = \<lparr>year = yearPivot (parseIntAt parts 0),
                   month = orInt (parseIntAt parts 1) 1,
                   day = orInt (parseIntAt parts 2) 1,
                   hour = orInt (parseIntAt parts 3) 0,
                   minute = orInt (parseIntAt parts 4) 0,
                   second = orNum (parseFloatAt parts 5) (Fin 0),
                   flag = orInt (parseIntAt parts 6) 0,
                   numSats = orInt (parseIntAt parts 7) 0\<rparr>;
             named = (if length parts > 8
                      then filter (\<lambda>part. length part \<ge> 3)
                             (take (nat (numSats ep)) (drop 8 parts))
                      else [])
         in (case mapRnd (epochLineSat rnd) named (o_next st) of
               (sats, n') \<Rightarrow>
                 st\<lparr>o_observations := pushEpoch st,
                    o_currentEpoch := Some ep,
                    o_epochData := sats,
                    o_next := n'\<rparr>))
      else if o_currentEpoch st \<noteq> None \<and> length line > 10 \<and> dataLinePattern line then
        (let obsValues = obsValuesOf line
         in if length (o_epochData st) > 0 \<and> length obsValues > 0
            then st\<lparr>o_epochData :=
                      butlast (o_epochData st)
                      @ [applyObsValues obsValues (o_observationTypes st)
                           (last (o_epochData st))]\<rparr>
            else st)
      else st)"

text \<open>The body of the loop of lines 611 to 798.\<close>

definition obsLine :: "(nat \<Rightarrow> real) \<Rightarrow> obsState \<Rightarrow> string \<Rightarrow> obsState" where
  "obsLine rnd st line =
     (if trim line = [] then st
      else if \<not> o_headerComplete st then obsHeaderLine st line
      else if atLeast3 (o_rinexVersion st) then obsLineV3 rnd st line
      else obsLineV2 rnd st line)"

definition obsInit :: "nat \<Rightarrow> obsState" where
  "obsInit n =
     \<lparr>o_observations = [], o_headerComplete = False, o_currentEpoch = None,
      o_epochData = [], o_observationTypes = [], o_rinexVersion = Fin 2, o_next = n\<rparr>"

text \<open>The parser: the parsed epochs and the index of the next random draw.\<close>

definition parseRinexObservation ::
    "(nat \<Rightarrow> real) \<Rightarrow> string \<Rightarrow> nat \<Rightarrow> observation list \<times> nat" where
  "parseRinexObservation rnd content n =
     (let st = foldl (obsLine rnd) (obsInit n) (splitLines content)
      in (pushEpoch st, o_next st))"

section \<open>parseRinexNavigation\<close>

text \<open>\<^verbatim>\<open>/^\s*\d{1,2}\s/.test(line)\<close>.\<close>

definition navLinePattern :: "string \<Rightarrow> bool" where
  "navLinePattern line =
     (let r = dropWhile isWs line; ds = takeWhile isDigit r; r1 = dropWhile isDigit r
      in (length ds = 1 \<or> length ds = 2) \<and> r1 \<noteq> [] \<and> isWs (hd r1))"

text \<open>\<^verbatim>\<open>values[k] || 0\<close> on the numbers of a continuation line, and the default of
  \<^verbatim>\<open>sqrtA\<close>.\<close>

definition valueOr :: "jsnum list \<Rightarrow> nat \<Rightarrow> jsnum \<Rightarrow> jsnum" where
  "valueOr vals k d = (case elemAt vals k of None \<Rightarrow> d | Some v \<Rightarrow> orNum v d)"

record navState =
  n_ephemeris :: "ephemerisRec list"
  n_headerComplete :: bool
  n_currentSat :: "string option"
  n_satData :: "satData option"
  n_lineCount :: nat
  n_rinexVersion :: jsnum

text \<open>\<^verbatim>\<open>if (currentSat && Object.keys(satData).length > 0) ephemeris.push(...)\<close>;
  \<^verbatim>\<open>satData\<close> is the empty object (\<open>None\<close>) until the first block starts.\<close>

definition pushSat :: "navState \<Rightarrow> ephemerisRec list" where
  "pushSat st =
     (case (n_currentSat st, n_satData st) of
        (Some sat, Some d) \<Rightarrow> n_ephemeris st @ [\<lparr>eph_satellite = sat, eph_data = d\<rparr>]
      | _ \<Rightarrow> n_ephemeris st)"

text \<open>The object of lines 862 to 874 and 897 to 909, given the year.\<close>

definition newSatData :: "int option \<Rightarrow> string list \<Rightarrow> satData" where
  "newSatData y parts =
     \<lparr>toc = \<lparr>toc_year = y,
              toc_month = orInt (parseIntAt parts 2) 1,
              toc_day = orInt (parseIntAt parts 3) 1,
              toc_hour = orInt (parseIntAt parts 4) 0,
              toc_minute = orInt (parseIntAt parts 5) 0,
              toc_second = orNum (parseFloatAt parts 6) (Fin 0)\<rparr>,
      clockBias = orNum (parseFloatAt parts 7) (Fin 0),
      clockDrift = orNum (parseFloatAt parts 8) (Fin 0),
      clockDriftRate = orNum (parseFloatAt parts 9) (Fin 0),
      iode = None, crs = None, deltaN = None, m0 = None,
      cuc = None, ecc = None, cus = None, sqrtA = None,
      toe = None, cic = None, omega0 = None, cis = None\<rparr>"

text \<open>Lines 847 to 912: the start of a block.\<close>

definition navBlockStart :: "navState \<Rightarrow> string \<Rightarrow> navState" where
  "navBlockStart st line =
     (if atLeast3 (n_rinexVersion st) then
        (if length line > 3 \<and> satIdPattern (trim line) then
           (let parts = splitWs (trim line)
            in st\<lparr>n_ephemeris := pushSat st,
                  n_currentSat := Some (substring line 0 3),
                  n_satData := Some (newSatData (Some (orInt (parseIntAt parts 1) 2024)) parts),
                  n_lineCount := 0\<rparr>)
         else st)
      else
        (if length line > 2 \<and> navLinePattern line then
           (let parts = splitWs (trim line);
                satNum = parseIntAt parts 0
            in st\<lparr>n_ephemeris := pushSat st,
                  n_currentSat := Some (''G'' @ padStart2 (intToString satNum)),
                  n_satData := Some (newSatData (yearPivot (parseIntAt parts 1)) parts),
                  n_lineCount := 0\<rparr>)
         else st))"

text \<open>Lines 915 to 939: a continuation line.\<close>

definition navDataLine :: "navState \<Rightarrow> string \<Rightarrow> navState" where
  "navDataLine st line =
     (case (n_currentSat st, n_satData st) of
        (Some sat, Some d) \<Rightarrow>
          if length (trim line) > 0 \<and> \<not> satIdPattern (trim line) \<and> \<not> navLinePattern line then
            (let vals = map (\<lambda>v. orNum (parseFloat v) (Fin 0)) (splitWs (trim line));
                 d' = (if n_lineCount st = 0 then
                         d\<lparr>iode := Some (valueOr vals 0 (Fin 0)),
                           crs := Some (valueOr vals 1 (Fin 0)),
                           deltaN := Some (valueOr vals 2 (Fin 0)),
                           m0 := Some (valueOr vals 3 (Fin 0))\<rparr>
                       else if n_lineCount st = 1 then
                         d\<lparr>cuc := Some (valueOr vals 0 (Fin 0)),
                           ecc := Some (valueOr vals 1 (Fin 0)),
                           cus := Some (valueOr vals 2 (Fin 0)),
                           sqrtA := Some (valueOr vals 3 (Fin (sqrt 26560000)))\<rparr>
                       else if n_lineCount st = 2 then
                         d\<lparr>toe := Some (valueOr vals 0 (Fin 0)),
                           cic := Some (valueOr vals 1 (Fin 0)),
                           omega0 := Some (valueOr vals 2 (Fin 0)),
                           cis := Some (valueOr vals 3 (Fin 0))\<rparr>
                       else d)
             in st\<lparr>n_satData := Some d', n_lineCount := n_lineCount st + 1\<rparr>)
          else st
      | _ \<Rightarrow> st)"

text \<open>The body of the loop of lines 823 to 940.\<close>

definition navLine :: "navState \<Rightarrow> string \<Rightarrow> navState" where
  "navLine st line =
     (if trim line = [] then st
      else if \<not> n_headerComplete st then
        (let st1 = (if includesStr line ''RINEX VERSION'' then
                      (case versionMatch line of
                         None \<Rightarrow> st
                       | Some v \<Rightarrow> st\<lparr>n_rinexVersion := parseFloat v\<rparr>)
                    else st)
         in if includesStr line ''END OF HEADER'' then st1\<lparr>n_headerComplete := True\<rparr> else st1)
      else navDataLine (navBlockStart st line) line)"

definition navInit :: navState where
  "navInit =
     \<lparr>n_ephemeris = [], n_headerComplete = False, n_currentSat = None,
      n_satData = None, n_lineCount = 0, n_rinexVersion = Fin 2\<rparr>"

definition parseRinexNavigation :: "string \<Rightarrow> ephemerisRec list" where
  "parseRinexNavigation content = pushSat (foldl navLine navInit (splitLines content))"

section \<open>The POST handler\<close>

text \<open>What \<^verbatim>\<open>formData.get(name)\<close> returns: \<^verbatim>\<open>null\<close>, a string or a file, of which
  only the text matters. A request whose form data cannot be read is \<open>Unreadable\<close>.\<close>

datatype formEntry = Absent | TextField string | FileField string

datatype request = Unreadable | Form formEntry formEntry

text \<open>The response: the JSON body with its status. The text of a status 500 error
  is the message of the caught exception, which the handler does not choose.\<close>

datatype response = Json200 detectionResult | Error400 string | Error500

text \<open>\<^verbatim>\<open>!entry\<close>: \<^verbatim>\<open>null\<close> and the empty string are falsy.\<close>

fun missing :: "formEntry \<Rightarrow> bool" where
  "missing Absent = True"
| "missing (TextField t) = (t = [])"
| "missing (FileField c) = False"

text \<open>\<^verbatim>\<open>await entry.text()\<close>: a string has no such method, the call throws.\<close>

fun textOf :: "formEntry \<Rightarrow> string option" where
  "textOf (FileField c) = Some c"
| "textOf e = None"

text \<open>The inner \<^verbatim>\<open>try\<close> block of lines 1192 to 1208, given what the two parser calls
  do: each returns its list or throws (\<open>None\<close>); the observation parser also
  leaves the index of the next random draw. A navigation parser is not called
  when the observation parser has thrown.\<close>

definition tryBlock ::
    "(string \<Rightarrow> nat \<Rightarrow> observation list option \<times> nat) \<Rightarrow> (string \<Rightarrow> ephemerisRec list option)
      \<Rightarrow> (nat \<Rightarrow> real) \<Rightarrow> string \<Rightarrow> string \<Rightarrow> nat \<Rightarrow> response" where
  "tryBlock parseObs parseNav rnd obsContent navContent n =
     (case parseObs obsContent n of
        (None, n') \<Rightarrow> Json200 (fst (generateRealisticResults rnd [] [] n'))
      | (Some observations, n') \<Rightarrow>
          (case parseNav navContent of
             None \<Rightarrow> Json200 (fst (generateRealisticResults rnd [] [] n'))
           | Some ephemeris \<Rightarrow>
               Json200 (fst (generateRealisticResults rnd observations ephemeris n'))))"

text \<open>Lines 1160 to 1217 around the parser calls.\<close>

definition handler ::
    "(string \<Rightarrow> nat \<Rightarrow> observation list option \<times> nat) \<Rightarrow> (string \<Rightarrow> ephemerisRec list option)
      \<Rightarrow> (nat \<Rightarrow> real) \<Rightarrow> request \<Rightarrow> nat \<Rightarrow> response" where
  "handler parseObs parseNav rnd req n =
     (case req of
        Unreadable \<Rightarrow> Error500
      | Form obsFile navFile \<Rightarrow>
          if missing obsFile \<or> missing navFile then
            Error400 ''Both observation (.24o) and navigation (.24n) files are required''
          else
            (case textOf obsFile of
               None \<Rightarrow> Error500
             | Some obsContent \<Rightarrow>
                 (case textOf navFile of
                    None \<Rightarrow> Error500
                  | Some navContent \<Rightarrow>
                      if length obsContent < 100 then
                        Error400 ''Observation file appears to be too small or empty''
                      else if length navContent < 100 then
                        Error400 ''Navigation file appears to be too small or empty''
                      else tryBlock parseObs parseNav rnd obsContent navContent n)))"

text \<open>The handler with the two parsers of the file, which return on every input.\<close>

definition POST :: "(nat \<Rightarrow> real) \<Rightarrow> request \<Rightarrow> nat \<Rightarrow> response" where
  "POST rnd req n =
     handler
       (\<lambda>content k. case parseRinexObservation rnd content k of (obs, k') \<Rightarrow> (Some obs, k'))
       (\<lambda>content. Some (parseRinexNavigation content))
       rnd req n"

text \<open>\<^verbatim>\<open>Math.random()\<close> returns a number from 0 up to, not including, 1.\<close>

definition inUnit :: "(nat \<Rightarrow> real) \<Rightarrow> bool" where
  "inUnit rnd = (\<forall>k. 0 \<le> rnd k \<and> rnd k < 1)"


fun isError :: "response \<Rightarrow> bool" where
  "isError (Json200 res) = False"
| "isError (Error400 msg) = True"
| "isError Error500 = True"

section \<open>What the specification asks for\<close>

text \<open>Every distance between consecutive position fixes is below the threshold of
  100.\<close>

definition consecutiveBelow :: "position list \<Rightarrow> bool" where
  "consecutiveBelow ps =
     list_all (\<lambda>i. distance (ps ! (i - 1)) (ps ! i) < 100) [1 ..< length ps]"


text \<open>Nothing in the result that was not derived from the parsed input: no more
  epochs than were parsed, no jump flag outside the parsed epochs, no satellite
  that was not observed.\<close>

definition nothingFabricated :: "observation list \<Rightarrow> detectionResult \<Rightarrow> bool" where
  "nothingFabricated observations res =
     (length (positionData res) \<le> length observations
      \<and> length (pdopValues res) \<le> length observations
      \<and> totalEpochs (procInfo res) \<le> length observations
      \<and> list_all (\<lambda>i. i < length observations) (positionJumps res)
      \<and> list_all (\<lambda>s. s \<in> set (concat (map (map satellite \<circ> satellites) observations)))
           (map sv (satelliteHealth res)))"

















section \<open>Concrete inputs\<close>

text \<open>Streams of random draws and file contents on which the functions are run
  below.\<close>

definition rndHalf :: "nat \<Rightarrow> real" where
  "rndHalf k = 1 / 2"


definition blankFile :: string where
  "blankFile = replicate 100 (CHR '' '')"


text \<open>A position fix at \<open>x\<close> metres on the first axis, and two fixes 500 apart.\<close>

definition fixAt :: "real \<Rightarrow> position" where
  "fixAt x = \<lparr>pos_epoch = 0, pos_x = x, pos_y = 0, pos_z = 0, pdop = 2, accuracy = 2,
              pos_numSats = 8\<rparr>"

definition twoFixes :: "position list" where
  "twoFixes = [fixAt 0, fixAt 500]"






text \<open>A parser call that throws at once, for the \<^verbatim>\<open>catch\<close> branch of the handler.\<close>

definition throwingObsParser :: "string \<Rightarrow> nat \<Rightarrow> observation list option \<times> nat" where
  "throwingObsParser content n = (None, n)"

definition throwingNavParser :: "string \<Rightarrow> ephemerisRec list option" where
  "throwingNavParser content = None"

definition emptyObsParser :: "string \<Rightarrow> nat \<Rightarrow> observation list option \<times> nat" where
  "emptyObsParser content n = (Some [], n)"

section \<open>Properties\<close>

subsection \<open>Number tokens\<close>


subsection \<open>Loops that draw random numbers\<close>

lemma mapRnd_Cons:
  "mapRnd f (a # as) n =
     (fst (f a n) # fst (mapRnd f as (snd (f a n))), snd (mapRnd f as (snd (f a n))))"
  by (simp split: prod.splits)

declare mapRnd.simps(2) [simp del]

lemma mapRnd_length: "length (fst (mapRnd f xs n)) = length xs"
  by (induction xs arbitrary: n) (simp_all add: mapRnd_Cons)

lemma mapRnd_nth:
  "j < length xs \<Longrightarrow> \<exists>m. fst (mapRnd f xs n) ! j = fst (f (xs ! j) m)"
proof (induction xs arbitrary: n j)
  case Nil
  then show ?case by simp
next
  case (Cons a as)
  show ?case
  proof (cases j)
    case 0
    then show ?thesis by (auto simp: mapRnd_Cons intro: exI [of _ n])
  next
    case (Suc j')
    with Cons.prems have "j' < length as" by simp
    from Cons.IH [OF this, of "snd (f a n)"] Suc show ?thesis
      by (simp add: mapRnd_Cons)
  qed
qed

lemma mapRnd_map:
  assumes "\<And>a m. g (fst (f a m)) = h a"
  shows "map g (fst (mapRnd f xs n)) = map h xs"
  by (induction xs arbitrary: n) (simp_all add: mapRnd_Cons assms)

subsection \<open>Consecutive generated positions are less than 100 apart\<close>

lemma sin_lipschitz: "\<bar>sin a - sin b\<bar> \<le> \<bar>a - b\<bar>" for a b :: real
proof -
  have "\<bar>sin a - sin b\<bar> = 2 * \<bar>sin ((a - b) / 2)\<bar> * \<bar>cos ((a + b) / 2)\<bar>"
    by (simp add: sin_diff_sin abs_mult)
  also have "\<dots> \<le> 2 * \<bar>(a - b) / 2\<bar> * 1"
    by (intro mult_mono mult_nonneg_nonneg abs_sin_x_le_abs_x abs_cos_le_one) simp_all
  finally show ?thesis by simp
qed

lemma cos_lipschitz: "\<bar>cos a - cos b\<bar> \<le> \<bar>a - b\<bar>" for a b :: real
proof -
  have "\<bar>cos a - cos b\<bar> = 2 * \<bar>sin ((a + b) / 2)\<bar> * \<bar>sin ((b - a) / 2)\<bar>"
    by (simp add: cos_diff_cos abs_mult)
  also have "\<dots> \<le> 2 * 1 * \<bar>(b - a) / 2\<bar>"
    by (intro mult_mono mult_nonneg_nonneg abs_sin_x_le_abs_x abs_sin_le_one) simp_all
  finally show ?thesis by simp
qed

lemma mkPosition_x:
  "pos_x (fst (mkPosition rnd i n)) =
     4000000 + sin (real i * 0.1) * 100
     + (rnd (if i = 15 \<or> i = 32 \<or> i = 41 then n + 4 else n + 3) - 0.5) * 50"
  unfolding mkPosition_def Let_def fst_conv position.select_convs by (rule refl)

lemma mkPosition_y:
  "pos_y (fst (mkPosition rnd i n)) =
     3000000 + cos (real i * 0.1) * 100
     + (rnd ((if i = 15 \<or> i = 32 \<or> i = 41 then n + 4 else n + 3) + 1) - 0.5) * 50"
  unfolding mkPosition_def Let_def fst_conv position.select_convs by (rule refl)

lemma mkPosition_z:
  "pos_z (fst (mkPosition rnd i n)) =
     5000000 + sin (real i * 0.05) * 50
     + (rnd ((if i = 15 \<or> i = 32 \<or> i = 41 then n + 4 else n + 3) + 2) - 0.5) * 25"
  unfolding mkPosition_def Let_def fst_conv position.select_convs by (rule refl)

lemma mkPosition_epoch: "pos_epoch (fst (mkPosition rnd i n)) = i"
  unfolding mkPosition_def Let_def fst_conv position.select_convs by (rule refl)

lemma coord_step_100:
  fixes s s' r r' c :: real
  assumes "\<bar>s' - s\<bar> \<le> 1 / 10" "0 \<le> r \<and> r < 1" "0 \<le> r' \<and> r' < 1"
  shows "((c + s' * 100 + (r' - 0.5) * 50) - (c + s * 100 + (r - 0.5) * 50))\<^sup>2 \<le> 3600"
proof -
  from assms have a: "s' \<le> s + 1 / 10" "s \<le> s' + 1 / 10" "0 \<le> r" "r < 1" "0 \<le> r'" "r' < 1"
    by linarith+
  define d where "d = 100 * s' - 100 * s + 50 * r' - 50 * r"
  have e: "(c + s' * 100 + (r' - 0.5) * 50) - (c + s * 100 + (r - 0.5) * 50) = d"
    by (simp add: d_def algebra_simps)
  have "d \<le> 60" "- d \<le> 60" using a unfolding d_def by linarith+
  then have "\<bar>d\<bar> \<le> 60" by (simp add: abs_le_iff)
  then have "d\<^sup>2 \<le> 60\<^sup>2"
    by (simp only: abs_le_square_iff [symmetric] abs_numeral)
  then show ?thesis unfolding e by simp
qed

lemma coord_step_50:
  fixes s s' r r' c :: real
  assumes "\<bar>s' - s\<bar> \<le> 1 / 20" "0 \<le> r \<and> r < 1" "0 \<le> r' \<and> r' < 1"
  shows "((c + s' * 50 + (r' - 0.5) * 25) - (c + s * 50 + (r - 0.5) * 25))\<^sup>2 \<le> 784"
proof -
  from assms have a: "s' \<le> s + 1 / 20" "s \<le> s' + 1 / 20" "0 \<le> r" "r < 1" "0 \<le> r'" "r' < 1"
    by linarith+
  define d where "d = 50 * s' - 50 * s + 25 * r' - 25 * r"
  have e: "(c + s' * 50 + (r' - 0.5) * 25) - (c + s * 50 + (r - 0.5) * 25) = d"
    by (simp add: d_def algebra_simps)
  have "d \<le> 28" "- d \<le> 28" using a unfolding d_def by linarith+
  then have "\<bar>d\<bar> \<le> 28" by (simp add: abs_le_iff)
  then have "d\<^sup>2 \<le> 28\<^sup>2"
    by (simp only: abs_le_square_iff [symmetric] abs_numeral)
  then show ?thesis unfolding e by simp
qed

lemma consecutive_close:
  assumes u: "inUnit rnd"
  shows "distance (fst (mkPosition rnd i n)) (fst (mkPosition rnd (Suc i) m)) < 100"
proof -
  have b: "\<And>k. 0 \<le> rnd k \<and> rnd k < 1" using u by (simp add: inUnit_def)
  have s1: "\<bar>sin (real (Suc i) * 0.1) - sin (real i * 0.1)\<bar> \<le> 1 / 10"
    using sin_lipschitz [of "real (Suc i) * 0.1" "real i * 0.1"] by (simp add: algebra_simps)
  have c1: "\<bar>cos (real (Suc i) * 0.1) - cos (real i * 0.1)\<bar> \<le> 1 / 10"
    using cos_lipschitz [of "real (Suc i) * 0.1" "real i * 0.1"] by (simp add: algebra_simps)
  have s2: "\<bar>sin (real (Suc i) * 0.05) - sin (real i * 0.05)\<bar> \<le> 1 / 20"
    using sin_lipschitz [of "real (Suc i) * 0.05" "real i * 0.05"] by (simp add: algebra_simps)
  have "(pos_x (fst (mkPosition rnd (Suc i) m)) - pos_x (fst (mkPosition rnd i n)))\<^sup>2
      + (pos_y (fst (mkPosition rnd (Suc i) m)) - pos_y (fst (mkPosition rnd i n)))\<^sup>2
      + (pos_z (fst (mkPosition rnd (Suc i) m)) - pos_z (fst (mkPosition rnd i n)))\<^sup>2
      \<le> 3600 + 3600 + 784"
    unfolding mkPosition_x mkPosition_y mkPosition_z
    by (intro add_mono coord_step_100 [OF s1 b b] coord_step_100 [OF c1 b b]
          coord_step_50 [OF s2 b b])
  then have "sqrt ((pos_x (fst (mkPosition rnd (Suc i) m)) - pos_x (fst (mkPosition rnd i n)))\<^sup>2
      + (pos_y (fst (mkPosition rnd (Suc i) m)) - pos_y (fst (mkPosition rnd i n)))\<^sup>2
      + (pos_z (fst (mkPosition rnd (Suc i) m)) - pos_z (fst (mkPosition rnd i n)))\<^sup>2)
      < sqrt (100\<^sup>2)"
    by (intro real_sqrt_less_mono) simp
  then show ?thesis by (simp add: distance_def)
qed

lemma generatePositions_length: "length (fst (generatePositions rnd k n)) = k"
  by (simp add: generatePositions_def mapRnd_length)

lemma generated_close:
  assumes u: "inUnit rnd" and i: "1 \<le> i" "i < k"
  shows "distance (fst (generatePositions rnd k n) ! (i - 1))
           (fst (generatePositions rnd k n) ! i) < 100"
proof -
  let ?ps = "fst (generatePositions rnd k n)"
  obtain j where j: "i = Suc j" using i by (cases i) auto
  obtain m1 where a: "?ps ! j = fst (mkPosition rnd j m1)"
    using mapRnd_nth [of j "[0 ..< k]" "mkPosition rnd" n] i j
    by (auto simp: generatePositions_def)
  obtain m2 where b: "?ps ! i = fst (mkPosition rnd i m2)"
    using mapRnd_nth [of i "[0 ..< k]" "mkPosition rnd" n] i
    by (auto simp: generatePositions_def)
  show ?thesis using consecutive_close [OF u, of j m1 m2] a b j by simp
qed

lemma generated_no_jump:
  assumes u: "inUnit rnd"
  shows "detectJumps (fst (generatePositions rnd k n)) = []"
proof -
  have "\<not> distance (fst (generatePositions rnd k n) ! (i - 1))
            (fst (generatePositions rnd k n) ! i) > 100"
    if "1 \<le> i" "i < k" for i
    using generated_close [OF u that, of n] by simp
  then show ?thesis by (auto simp: detectJumps_def generatePositions_length filter_empty_conv)
qed

subsection \<open>The fields of the result\<close>

lemma gen_jumps:
  "positionJumps (fst (generateRealisticResults rnd obs eph n)) =
     fst (artificialJumps
            (detectJumps (fst (generatePositions rnd (max 50 (length obs)) n)))
            (fst (generatePositions rnd (max 50 (length obs)) n)))"
  unfolding generateRealisticResults_def Let_def split_beta fst_conv
    detectionResult.select_convs
  by (rule refl)

lemma gen_totalEpochs:
  "totalEpochs (procInfo (fst (generateRealisticResults rnd obs eph n))) = max 50 (length obs)"
  unfolding generateRealisticResults_def Let_def split_beta fst_conv
    detectionResult.select_convs mkProcessingInfo_def processingInfo.select_convs
  by (rule refl)

lemma gen_jumps_fixed:
  "inUnit rnd \<Longrightarrow> positionJumps (fst (generateRealisticResults rnd obs eph n)) = [16, 33, 42]"
  by (simp add: gen_jumps generated_no_jump artificialJumps_def)

lemma inUnit_rndHalf: "inUnit rndHalf"
  by (simp add: inUnit_def rndHalf_def)


subsection \<open>A file of blanks\<close>

lemma splitLinesAcc_no_newline:
  "CHR 0x0A \<notin> set s \<Longrightarrow> splitLinesAcc cur s = [rev cur @ s]"
  by (induction cur s rule: splitLinesAcc.induct) auto

lemma splitLines_blankFile: "splitLines blankFile = [blankFile]"
  by (simp add: splitLines_def blankFile_def splitLinesAcc_no_newline)

lemma trim_blankFile: "trim blankFile = []"
  by (simp add: trim_def blankFile_def isWs_def)

lemma length_blankFile: "length blankFile = 100"
  by (simp add: blankFile_def)

lemma parseObs_blankFile: "parseRinexObservation rnd blankFile n = ([], n)"
  by (simp add: parseRinexObservation_def splitLines_blankFile obsLine_def trim_blankFile
        obsInit_def pushEpoch_def)

lemma parseNav_blankFile: "parseRinexNavigation blankFile = []"
  by (simp add: parseRinexNavigation_def splitLines_blankFile navLine_def trim_blankFile
        navInit_def pushSat_def)

subsection \<open>The handler on two files of at least 100 characters\<close>

lemma handler_big:
  "100 \<le> length oc \<Longrightarrow> 100 \<le> length vc \<Longrightarrow>
   handler parseObs parseNav rnd (Form (FileField oc) (FileField vc)) n =
     tryBlock parseObs parseNav rnd oc vc n"
  by (simp add: handler_def)

lemma POST_big:
  "100 \<le> length oc \<Longrightarrow> 100 \<le> length vc \<Longrightarrow>
   POST rnd (Form (FileField oc) (FileField vc)) n =
     Json200 (fst (generateRealisticResults rnd (fst (parseRinexObservation rnd oc n))
                     (parseRinexNavigation vc) (snd (parseRinexObservation rnd oc n))))"
  by (simp add: POST_def handler_big tryBlock_def split: prod.splits)

lemma POST_Json200_D:
  "POST rnd req n = Json200 res \<Longrightarrow>
   \<exists>oc vc. req = Form (FileField oc) (FileField vc) \<and> 100 \<le> length oc \<and> 100 \<le> length vc"
  by (cases req; cases "case req of Form a b \<Rightarrow> a"; cases "case req of Form a b \<Rightarrow> b")
     (auto simp: POST_def handler_def split: if_splits option.splits)

lemma POST_blank:
  "POST rnd (Form (FileField blankFile) (FileField blankFile)) n =
     Json200 (fst (generateRealisticResults rnd [] [] n))"
  by (simp add: POST_big length_blankFile parseObs_blankFile parseNav_blankFile)

lemma artificialJumps_length: "length (snd (artificialJumps j ps)) = length ps"
  by (simp add: artificialJumps_def updateAt_def)

lemma updateAt_map:
  assumes "\<And>p. g (f p) = g p"
  shows "map g (updateAt k f ps) = map g ps"
  by (simp add: updateAt_def map_update assms list_update_same_conv)


lemma gen_positionData:
  "positionData (fst (generateRealisticResults rnd obs eph n)) =
     snd (artificialJumps
            (detectJumps (fst (generatePositions rnd (max 50 (length obs)) n)))
            (fst (generatePositions rnd (max 50 (length obs)) n)))"
  unfolding generateRealisticResults_def Let_def split_beta fst_conv
    detectionResult.select_convs
  by (rule refl)

lemma gen_pdopValues:
  "pdopValues (fst (generateRealisticResults rnd obs eph n)) =
     map pdop (positionData (fst (generateRealisticResults rnd obs eph n)))"
  unfolding generateRealisticResults_def Let_def split_beta fst_conv
    detectionResult.select_convs
  by (rule refl)


lemma gen_satelliteHealth:
  "satelliteHealth (fst (generateRealisticResults rnd obs eph n)) =
     fst (mapRnd (mkHealth rnd) (take 12 (satelliteIds obs))
            (snd (generatePositions rnd (max 50 (length obs)) n)))"
  unfolding generateRealisticResults_def Let_def split_beta fst_conv
    detectionResult.select_convs
  by (rule refl)

lemma gen_signalData:
  "\<exists>k. signalData (fst (generateRealisticResults rnd obs eph n)) =
     fst (mapRnd (mkSignal rnd)
            [0 ..< length (positionData (fst (generateRealisticResults rnd obs eph n)))] k)"
  unfolding generateRealisticResults_def Let_def split_beta fst_conv
    detectionResult.select_convs
  by (rule exI, rule refl)

lemma gen_flaggedEpochs:
  "flaggedEpochs (fst (generateRealisticResults rnd obs eph n)) =
     uniq (highPdop (fst (generateRealisticResults rnd obs eph n))
           @ positionJumps (fst (generateRealisticResults rnd obs eph n)))"
  unfolding generateRealisticResults_def Let_def split_beta fst_conv
    detectionResult.select_convs
  by (rule refl)

lemma gen_probability:
  "\<exists>k. spoofingProbability (fst (generateRealisticResults rnd obs eph n)) =
          round (rawProbability
            (length (flaggedEpochs (fst (generateRealisticResults rnd obs eph n))))
            (length (positionJumps (fst (generateRealisticResults rnd obs eph n))))
            (length (unhealthyOf (satelliteHealth (fst (generateRealisticResults rnd obs eph n)))))
            (rnd k))
      \<and> threatLevel (fst (generateRealisticResults rnd obs eph n)) =
          threatLevelOf (rawProbability
            (length (flaggedEpochs (fst (generateRealisticResults rnd obs eph n))))
            (length (positionJumps (fst (generateRealisticResults rnd obs eph n))))
            (length (unhealthyOf (satelliteHealth (fst (generateRealisticResults rnd obs eph n)))))
            (rnd k))"
  unfolding generateRealisticResults_def Let_def split_beta fst_conv
    detectionResult.select_convs
  by (rule exI, rule conjI; rule refl)

lemma gen_procInfo:
  "procInfo (fst (generateRealisticResults rnd obs eph n)) =
     mkProcessingInfo (max 50 (length obs)) (length (take 12 (satelliteIds obs)))"
  unfolding generateRealisticResults_def Let_def split_beta fst_conv
    detectionResult.select_convs
  by (rule refl)

lemma satelliteIds_Nil: "satelliteIds [] = commonSats"
  by (simp add: satelliteIds_def commonSats_def setAdd_def)

lemma mkHealth_sv: "sv (fst (mkHealth rnd a m)) = a"
  by (simp add: mkHealth_def Let_def)

lemma gen_health_ids:
  "map sv (satelliteHealth (fst (generateRealisticResults rnd obs eph n)))
     = take 12 (satelliteIds obs)"
  by (simp add: gen_satelliteHealth mapRnd_map [where h = "\<lambda>a. a"] mkHealth_sv)


lemma artificialJumps_epochs:
  "map pos_epoch (snd (artificialJumps j ps)) = map pos_epoch ps"
  by (simp add: artificialJumps_def updateAt_map)

lemma generatePositions_epochs: "map pos_epoch (fst (generatePositions rnd k n)) = [0 ..< k]"
  by (simp add: generatePositions_def mapRnd_map [where h = "\<lambda>a. a"] mkPosition_epoch)

lemma gen_epochs:
  "map pos_epoch (positionData (fst (generateRealisticResults rnd obs eph n)))
     = [0 ..< max 50 (length obs)]"
  by (simp only: gen_positionData artificialJumps_epochs generatePositions_epochs)

lemma gen_positionData_length:
  "length (positionData (fst (generateRealisticResults rnd obs eph n))) = max 50 (length obs)"
  by (simp only: gen_positionData artificialJumps_length generatePositions_length)

lemma mkSignal_epoch: "sig_epoch (fst (mkSignal rnd i m)) = i"
  by (simp add: mkSignal_def)

lemma gen_signal_epochs:
  "map sig_epoch (signalData (fst (generateRealisticResults rnd obs eph n)))
     = [0 ..< max 50 (length obs)]"
proof -
  obtain k where "signalData (fst (generateRealisticResults rnd obs eph n)) =
     fst (mapRnd (mkSignal rnd)
            [0 ..< length (positionData (fst (generateRealisticResults rnd obs eph n)))] k)"
    using gen_signalData by blast
  then show ?thesis
    by (simp only: gen_positionData_length mapRnd_map [where h = "\<lambda>a. a"] mkSignal_epoch
          list.map_ident)
qed

lemma distance_fixAt: "distance (fixAt a) (fixAt b) = \<bar>b - a\<bar>"
  by (simp add: distance_def fixAt_def)

lemma detectJumps_twoFixes: "detectJumps twoFixes = [1]"
  by (simp add: detectJumps_def twoFixes_def distance_fixAt)

lemma detectJumps_one: "detectJumps [p] = []"
  by (simp add: detectJumps_def)

lemma generated_consecutiveBelow:
  assumes u: "inUnit rnd"
  shows "consecutiveBelow (fst (generatePositions rnd k n))"
  unfolding consecutiveBelow_def list_all_iff generatePositions_length
proof
  fix i assume "i \<in> set [1 ..< k]"
  then have "1 \<le> i" "i < k" by simp_all
  then show "distance (fst (generatePositions rnd k n) ! (i - 1))
               (fst (generatePositions rnd k n) ! i) < 100"
    by (rule generated_close [OF u])
qed

lemma setAdd_set: "set (setAdd xs a) = insert a (set xs)"
  by (auto simp: setAdd_def)

lemma setAdd_distinct: "distinct xs \<Longrightarrow> distinct (setAdd xs a)"
  by (auto simp: setAdd_def)

lemma foldl_setAdd_set: "set (foldl setAdd acc xs) = set acc \<union> set xs"
  by (induction xs arbitrary: acc) (auto simp: setAdd_set)

lemma foldl_setAdd_distinct: "distinct acc \<Longrightarrow> distinct (foldl setAdd acc xs)"
  by (induction xs arbitrary: acc) (auto simp: setAdd_distinct)

lemma uniq_set: "set (uniq xs) = set xs"
  by (simp add: uniq_def foldl_setAdd_set)

lemma uniq_distinct: "distinct (uniq xs)"
  by (simp add: uniq_def foldl_setAdd_distinct)

lemma three_flagged:
  "3 \<le> length (uniq (hs @ [16, 33, 42 :: nat]))"
proof -
  have "card {16, 33, 42 :: nat} \<le> card (set (uniq (hs @ [16, 33, 42])))"
    by (intro card_mono) (auto simp: uniq_set)
  then show ?thesis by (simp add: distinct_card [OF uniq_distinct])
qed

lemma mapRnd_filter_lower:
  assumes "\<And>a m. Q a \<Longrightarrow> P (fst (f a m))"
  shows "length (filter Q xs) \<le> length (filter P (fst (mapRnd f xs n)))"
  by (induction xs arbitrary: n) (auto simp: mapRnd_Cons assms le_SucI)

lemma mkHealth_suspicious:
  assumes "inUnit rnd" "a = ''G02'' \<or> a = ''G04''"
  shows "health (fst (mkHealth rnd a m)) < 0.5"
proof -
  have "0 \<le> rnd m" "rnd m < 1" using assms(1) by (simp_all add: inUnit_def)
  then show ?thesis using assms(2) by (auto simp: mkHealth_def Let_def)
qed

lemma rawProbability_bounds: "5 \<le> rawProbability f j u r \<and> rawProbability f j u r \<le> 95"
  by (simp add: rawProbability_def)

lemma rawProbability_critical:
  assumes "3 \<le> f" "3 \<le> j" "0 \<le> r"
  shows "75 \<le> rawProbability f j u r"
proof -
  have "3 \<le> real f" "3 \<le> real j" using assms by simp_all
  then have "75 \<le> real f * 5 + real j * 20 + real u * 15 + r * 10"
    using assms(3) by linarith
  then show ?thesis by (simp add: rawProbability_def)
qed

lemma rawProbability_saturated:
  assumes "3 \<le> f" "3 \<le> j" "2 \<le> u" "0 \<le> r"
  shows "rawProbability f j u r = 95"
proof -
  have "3 \<le> real f" "3 \<le> real j" "2 \<le> real u" using assms by simp_all
  then have "95 \<le> real f * 5 + real j * 20 + real u * 15 + r * 10"
    using assms(4) by linarith
  then show ?thesis by (simp add: rawProbability_def)
qed

lemma gen_flagged_three:
  assumes "inUnit rnd"
  shows "3 \<le> length (flaggedEpochs (fst (generateRealisticResults rnd obs eph n)))"
  by (simp only: gen_flaggedEpochs gen_jumps_fixed [OF assms] three_flagged)

lemma gen_critical:
  assumes u: "inUnit rnd"
  shows "threatLevel (fst (generateRealisticResults rnd obs eph n)) = CRITICAL"
    and "75 \<le> spoofingProbability (fst (generateRealisticResults rnd obs eph n))"
    and "spoofingProbability (fst (generateRealisticResults rnd obs eph n)) \<le> 95"
proof -
  let ?R = "fst (generateRealisticResults rnd obs eph n)"
  obtain k where k:
    "spoofingProbability ?R = round (rawProbability (length (flaggedEpochs ?R))
        (length (positionJumps ?R)) (length (unhealthyOf (satelliteHealth ?R))) (rnd k))"
    "threatLevel ?R = threatLevelOf (rawProbability (length (flaggedEpochs ?R))
        (length (positionJumps ?R)) (length (unhealthyOf (satelliteHealth ?R))) (rnd k))"
    using gen_probability [of rnd obs eph n] by blast
  have r: "0 \<le> rnd k" using u by (simp add: inUnit_def)
  have j: "3 \<le> length (positionJumps ?R)" by (simp add: gen_jumps_fixed [OF u])
  have c: "75 \<le> rawProbability (length (flaggedEpochs ?R))
        (length (positionJumps ?R)) (length (unhealthyOf (satelliteHealth ?R))) (rnd k)"
    by (rule rawProbability_critical [OF gen_flagged_three [OF u] j r])
  show "threatLevel ?R = CRITICAL" using c by (simp add: k(2) threatLevelOf_def)
  have "round (75::real) \<le> spoofingProbability ?R" unfolding k(1) by (rule round_mono [OF c])
  then show "75 \<le> spoofingProbability ?R" by simp
  have "spoofingProbability ?R \<le> round (95::real)" unfolding k(1)
    by (rule round_mono) (simp add: rawProbability_bounds)
  then show "spoofingProbability ?R \<le> 95" by simp
qed

lemma length_commonSats: "length commonSats = 10"
  by (simp add: commonSats_def)

lemma gen_pdopValues_length:
  "length (pdopValues (fst (generateRealisticResults rnd obs eph n))) = max 50 (length obs)"
  by (simp only: gen_pdopValues length_map gen_positionData_length)

lemma gen_signalData_length:
  "length (signalData (fst (generateRealisticResults rnd obs eph n))) = max 50 (length obs)"
  using arg_cong [OF gen_signal_epochs [of rnd obs eph n], of length] by simp

lemma two_suspicious: "length (filter (\<lambda>a. a = ''G02'' \<or> a = ''G04'') commonSats) = 2"
  by (simp add: commonSats_def)

lemma gen_unhealthy_Nil:
  assumes u: "inUnit rnd"
  shows "2 \<le> length (unhealthyOf (satelliteHealth (fst (generateRealisticResults rnd [] eph n))))"
proof -
  have "length (filter (\<lambda>a. a = ''G02'' \<or> a = ''G04'') commonSats)
        \<le> length (filter (\<lambda>s. health s < 0.5) (fst (mapRnd (mkHealth rnd) commonSats m)))" for m
    by (rule mapRnd_filter_lower) (rule mkHealth_suspicious [OF u])
  then show ?thesis
    by (simp add: unhealthyOf_def gen_satelliteHealth satelliteIds_Nil length_commonSats
          two_suspicious)
qed

lemma gen_saturated_Nil:
  assumes u: "inUnit rnd"
  shows "spoofingProbability (fst (generateRealisticResults rnd [] eph n)) = 95"
proof -
  let ?R = "fst (generateRealisticResults rnd [] eph n)"
  obtain k where k:
    "spoofingProbability ?R = round (rawProbability (length (flaggedEpochs ?R))
        (length (positionJumps ?R)) (length (unhealthyOf (satelliteHealth ?R))) (rnd k))"
    using gen_probability [of rnd "[]" eph n] by blast
  have r: "0 \<le> rnd k" using u by (simp add: inUnit_def)
  have j: "3 \<le> length (positionJumps ?R)" by (simp add: gen_jumps_fixed [OF u])
  show ?thesis unfolding k
    by (simp add: rawProbability_saturated [OF gen_flagged_three [OF u] j gen_unhealthy_Nil [OF u] r])
qed











































lemma digit_facts:
  assumes "isDigit c"
  shows "\<not> isWs c" "c \<noteq> CHR ''-''" "c \<noteq> CHR ''+''" "c \<noteq> CHR ''x''" "c \<noteq> CHR ''X''"
    "digitVal c \<le> 9"
  using assms by (auto simp: isDigit_def isWs_def digitVal_def)

lemma parseInt_two_digits:
  assumes "isDigit a" "isDigit b"
  shows "parseInt [a, b] = Some (int (10 * digitVal a + digitVal b))"
  using assms digit_facts [OF assms(1)] digit_facts [OF assms(2)]
  by (simp add: parseInt_def startsWith_def digitsVal_def)

lemma two_digit_pivot:
  assumes "isDigit a" "isDigit b"
  shows "yearPivot (parseInt [a, b]) =
           Some (if 10 * digitVal a + digitVal b < 80
                 then int (10 * digitVal a + digitVal b) + 2000
                 else int (10 * digitVal a + digitVal b) + 1900)"
  using digit_facts(6) [OF assms(1)] digit_facts(6) [OF assms(2)]
  by (auto simp: parseInt_two_digits [OF assms] yearPivot_def)

lemma obsLineV2_year:
  "epochLinePattern line \<Longrightarrow>
   map_option year (o_currentEpoch (obsLineV2 rnd st line))
     = Some (yearPivot (parseIntAt (splitWs (trim line)) 0))"
  by (simp add: obsLineV2_def Let_def split_beta)

lemma navBlockStart_year:
  "\<not> atLeast3 (n_rinexVersion st) \<Longrightarrow> length line > 2 \<Longrightarrow> navLinePattern line \<Longrightarrow>
   map_option (\<lambda>d. toc_year (toc d)) (n_satData (navBlockStart st line))
     = Some (yearPivot (parseIntAt (splitWs (trim line)) 1))"
  by (simp add: navBlockStart_def Let_def newSatData_def)

lemma pivot_examples:
  "yearPivot (parseInt ''79'') = Some 2079"
  "yearPivot (parseInt ''85'') = Some 1985"
  "yearPivot (parseInt ''00'') = Some 2000"
  by (simp_all add: parseInt_def startsWith_def digitsVal_def digitVal_def isDigit_def isWs_def
        yearPivot_def)

lemma ws_space: "isWs (CHR '' '')"
  by (simp add: isWs_def)

lemma epochLine_example:
  "epochLinePattern '' 79  1 15  0  0  0.0000000  0  1 G01''"
  by (simp add: epochLinePattern_def digits12Ws_def isDigit_def isWs_def)

lemma epochLine_parts:
  "splitWs (trim '' 79  1 15  0  0  0.0000000  0  1 G01'')
     = [''79'', ''1'', ''15'', ''0'', ''0'', ''0.0000000'', ''0'', ''1'', ''G01'']"
  by (simp add: splitWs_def trim_def isWs_def)

lemma navLine_example:
  "navLinePattern '' 1 85  1 15  0  0  0.0 1.0e-04 2.0e-12 0.0''"
  by (simp add: navLinePattern_def isDigit_def isWs_def)

lemma navLine_parts:
  "splitWs (trim '' 1 85  1 15  0  0  0.0 1.0e-04 2.0e-12 0.0'')
     = [''1'', ''85'', ''1'', ''15'', ''0'', ''0'', ''0.0'', ''1.0e-04'', ''2.0e-12'', ''0.0'']"
  by (simp add: splitWs_def trim_def isWs_def)

lemma digits12Ws_D:
  assumes "digits12Ws s = Some r"
  shows "takeWhile isDigit s \<noteq> []" "dropWhile isDigit s \<noteq> []" "isWs (hd (dropWhile isDigit s))"
    "r = dropWhile isWs (dropWhile isDigit s)"
  using assms by (auto simp: digits12Ws_def Let_def split: if_splits)

lemma epochLine_first_token:
  assumes "epochLinePattern line"
  shows "\<exists>a b. isDigit a \<and> isDigit b \<and> elemAt (splitWs (trim line)) 0 = Some [a, b]"
proof -
  define r where "r = dropWhile isWs line"
  from assms obtain r1 r2 where p: "length (takeWhile isDigit r) = 2"
    "digits12Ws r = Some r1" "digits12Ws r1 = Some r2"
    by (auto simp: epochLinePattern_def Let_def r_def split: if_splits option.splits)
  from p(1) obtain a b where ab: "takeWhile isDigit r = [a, b]"
    by (cases "takeWhile isDigit r"; cases "tl (takeWhile isDigit r)") auto
  have da: "isDigit a" and db: "isDigit b"
    using set_takeWhileD [of a isDigit r] set_takeWhileD [of b isDigit r] ab by auto
  note d = digits12Ws_D [OF p(2)]
  obtain w rest where wr: "dropWhile isDigit r = w # rest" using d(2) by (cases "dropWhile isDigit r") auto
  have ww: "isWs w" using d(3) wr by simp
  have r1: "r1 = dropWhile isWs rest" using d(4) wr ww by simp
  have "takeWhile isDigit r1 \<noteq> []" by (rule digits12Ws_D(1) [OF p(3)])
  then have "r1 \<noteq> []" by auto
  then obtain x where x: "x \<in> set rest" "\<not> isWs x"
    unfolding r1 by (auto simp: dropWhile_eq_Nil_conv)
  have r: "r = a # b # w # rest"
    using takeWhile_dropWhile_id [of isDigit r] ab wr by simp
  have e1: "dropWhile isWs (rev rest @ [w]) = dropWhile isWs (rev rest) @ [w]"
    using x by (intro dropWhile_append1 [of x]) auto
  have e2: "dropWhile isWs ((rev rest @ [w]) @ [b]) = dropWhile isWs (rev rest @ [w]) @ [b]"
    using x by (intro dropWhile_append1 [of x]) auto
  have e3: "dropWhile isWs (((rev rest @ [w]) @ [b]) @ [a]) = dropWhile isWs ((rev rest @ [w]) @ [b]) @ [a]"
    using x by (intro dropWhile_append1 [of x]) auto
  have "trim line = a # b # w # rev (dropWhile isWs (rev rest))"
    unfolding trim_def r_def [symmetric] r using e1 e2 e3 by simp
  then have "splitWs (trim line) = [a, b] # splitWsAcc True [] (rev (dropWhile isWs (rev rest)))"
    using digit_facts(1) [OF da] digit_facts(1) [OF db] ww by (simp add: splitWs_def)
  then show ?thesis using da db by (auto simp: elemAt_def)
qed

lemma obsLineV2_year_range:
  assumes "epochLinePattern line"
  shows "\<exists>v. 0 \<le> v \<and> v < 100
     \<and> map_option year (o_currentEpoch (obsLineV2 rnd st line))
         = Some (Some (if v < 80 then v + 2000 else v + 1900))"
proof -
  obtain a b where ab: "isDigit a" "isDigit b" "elemAt (splitWs (trim line)) 0 = Some [a, b]"
    using epochLine_first_token [OF assms] by blast
  have "map_option year (o_currentEpoch (obsLineV2 rnd st line)) = Some (yearPivot (parseInt [a, b]))"
    by (simp add: obsLineV2_year [OF assms] parseIntAt_def ab(3))
  then show ?thesis
    using two_digit_pivot [OF ab(1,2)] digit_facts(6) [OF ab(1)] digit_facts(6) [OF ab(2)]
    by (intro exI [of _ "int (10 * digitVal a + digitVal b)"]) auto
qed





lemma withDefaults_fields:
  "(falsy (raw_pseudorange raw) \<longrightarrow>
      pseudorange (fst (withDefaults rnd satId raw n)) = Fin (20000000 + rnd n * 5000000))
   \<and> (falsy (raw_carrierPhase raw) \<longrightarrow>
      (\<exists>k. carrierPhase (fst (withDefaults rnd satId raw n)) = Fin (rnd k * 1000)))
   \<and> (falsy (raw_doppler raw) \<longrightarrow>
      (\<exists>k. doppler (fst (withDefaults rnd satId raw n)) = Fin ((rnd k - 0.5) * 2000)))
   \<and> (falsy (raw_snr raw) \<longrightarrow>
      (\<exists>k. snr (fst (withDefaults rnd satId raw n)) = Fin (35 + rnd k * 15)))"
  by (auto simp: withDefaults_def Let_def fieldOr_def falsy_def split: option.splits)

lemma withDefaults_nonzero:
  assumes "inUnit rnd"
  shows "pseudorange (fst (withDefaults rnd satId raw n)) \<noteq> Fin 0"
    and "snr (fst (withDefaults rnd satId raw n)) \<noteq> Fin 0"
proof -
  have r: "\<And>k. 0 \<le> rnd k" using assms by (simp add: inUnit_def)
  have "20000000 + rnd n * 5000000 \<noteq> 0" using r [of n] by simp
  then show "pseudorange (fst (withDefaults rnd satId raw n)) \<noteq> Fin 0"
    by (auto simp: withDefaults_def Let_def fieldOr_def split: option.splits)
  have "35 + rnd k * 15 \<noteq> 0" for k using r [of k] by simp
  then show "snr (fst (withDefaults rnd satId raw n)) \<noteq> Fin 0"
    by (auto simp: withDefaults_def Let_def fieldOr_def split: option.splits)
qed



lemma satLine_example:
  "\<not> startsWith ''G07 abc'' ''>''" "satIdPattern (trim ''G07 abc'')"
  by (simp_all add: startsWith_def trim_def isWs_def isUpper_def isDigit_def)





lemma includesStr_append: "includesStr s p \<Longrightarrow> includesStr (a @ s) p"
  by (induction a) simp_all





















lemma parseFloat_underflow: "parseFloat ''1e-400'' = Fin 0"
  by (simp add: parseFloat_def toDouble_def exponentOf_def startsWith_def isWs_def isDigit_def
        digitsVal_def digitVal_def power_int_minus divide_simps)

lemma parseFloat_overflow: "parseFloat ''1e400'' = PosInf"
  by (simp add: parseFloat_def toDouble_def exponentOf_def startsWith_def isWs_def isDigit_def
        digitsVal_def digitVal_def)



subsection \<open>Satellite records and their tokens\<close>






lemma drawIf_add: "drawIf b n = n + (if b then 1 else 0)"
  by (simp add: drawIf_def)












lemma butlast_last_all:
  "xs \<noteq> [] \<Longrightarrow> list_all P xs \<Longrightarrow> P (g (last xs)) \<Longrightarrow> list_all P (butlast xs @ [g (last xs)])"
  by (induction xs rule: rev_induct) simp_all









section \<open>The claims\<close>

text \<open>
  C3. The mapping from the probability to the threat level is total, and its four
  buckets do not overlap: below 25 it is LOW, from 25 and below 50 MEDIUM, from 50
  and below 75 HIGH, from 75 CRITICAL; so 24 is LOW, 25 and 49 are MEDIUM, 74 is
  HIGH and 75 is CRITICAL. In a result, the returned level is the bucket of the
  returned probability.
\<close>

theorem threatLevel_buckets:
  "(p < 25 \<longrightarrow> threatLevelOf p = LOW)
   \<and> (25 \<le> p \<and> p < 50 \<longrightarrow> threatLevelOf p = MEDIUM)
   \<and> (50 \<le> p \<and> p < 75 \<longrightarrow> threatLevelOf p = HIGH)
   \<and> (75 \<le> p \<longrightarrow> threatLevelOf p = CRITICAL)
   \<and> threatLevelOf 24 = LOW \<and> threatLevelOf 25 = MEDIUM \<and> threatLevelOf 49 = MEDIUM
   \<and> threatLevelOf 74 = HIGH \<and> threatLevelOf 75 = CRITICAL
   \<and> (inUnit rnd \<longrightarrow>
        threatLevel (fst (generateRealisticResults rnd obs eph n))
          = threatLevelOf (real_of_int
              (spoofingProbability (fst (generateRealisticResults rnd obs eph n)))))"
proof -
  have "threatLevel (fst (generateRealisticResults rnd obs eph n))
          = threatLevelOf (real_of_int
              (spoofingProbability (fst (generateRealisticResults rnd obs eph n))))"
    if u: "inUnit rnd"
    using gen_critical(1,2) [OF u, of obs eph n] by (simp add: threatLevelOf_def)
  then show ?thesis by (simp add: threatLevelOf_def)
qed

theorem threatLevel_buckets_witness:
  "(24::real) < 25 \<and> threatLevelOf 24 = LOW
   \<and> (25::real) \<le> 30 \<and> (30::real) < 50 \<and> threatLevelOf 30 = MEDIUM
   \<and> (50::real) \<le> 60 \<and> (60::real) < 75 \<and> threatLevelOf 60 = HIGH
   \<and> (75::real) \<le> 80 \<and> threatLevelOf 80 = CRITICAL
   \<and> inUnit rndHalf
   \<and> threatLevel (fst (generateRealisticResults rndHalf [] [] 0))
       = threatLevelOf (real_of_int
           (spoofingProbability (fst (generateRealisticResults rndHalf [] [] 0))))"
  using threatLevel_buckets [of 24 rndHalf "[]" "[]" 0] threatLevel_buckets [of 30 rndHalf "[]" "[]" 0]
    threatLevel_buckets [of 60 rndHalf "[]" "[]" 0] threatLevel_buckets [of 80 rndHalf "[]" "[]" 0]
    inUnit_rndHalf
  by simp




text \<open>
  C9. When both contents have at least 100 characters and a parser call throws,
  the handler answers with status 200 and the result generated from an empty
  observation list and an empty ephemeris list; no error response is returned.
\<close>

theorem parser_exception_gives_synthetic_200:
  "100 \<le> length oc \<Longrightarrow> 100 \<le> length vc \<Longrightarrow>
   fst (parseObs oc n) = None \<or> parseNav vc = None \<Longrightarrow>
   handler parseObs parseNav rnd (Form (FileField oc) (FileField vc)) n
     = Json200 (fst (generateRealisticResults rnd [] [] (snd (parseObs oc n))))
   \<and> \<not> isError (handler parseObs parseNav rnd (Form (FileField oc) (FileField vc)) n)"
  by (auto simp: handler_big tryBlock_def split: prod.splits option.splits)

theorem parser_exception_gives_synthetic_200_witness:
  "100 \<le> length blankFile
   \<and> fst (throwingObsParser blankFile 0) = None
   \<and> handler throwingObsParser throwingNavParser rndHalf
        (Form (FileField blankFile) (FileField blankFile)) 0
       = Json200 (fst (generateRealisticResults rndHalf [] [] 0))
   \<and> throwingNavParser blankFile = None
   \<and> handler emptyObsParser throwingNavParser rndHalf
        (Form (FileField blankFile) (FileField blankFile)) 0
       = Json200 (fst (generateRealisticResults rndHalf [] [] 0))"
  using
    parser_exception_gives_synthetic_200 [of blankFile blankFile throwingObsParser 0
      throwingNavParser rndHalf]
    parser_exception_gives_synthetic_200 [of blankFile blankFile emptyObsParser 0
      throwingNavParser rndHalf]
  by (simp add: length_blankFile throwingObsParser_def throwingNavParser_def
        emptyObsParser_def)

text \<open>
  C10. The returned \<^verbatim>\<open>processingInfo.totalEpochs\<close> is the larger of 50 and the
  number of epochs parsed from the observation file, in the result of
  \<^verbatim>\<open>generateRealisticResults\<close> and in every status 200 response of the handler; it
  is at least 50, also when no epoch was parsed.
\<close>

theorem totalEpochs_is_max_50:
  "totalEpochs (procInfo (fst (generateRealisticResults rnd obs eph n))) = max 50 (length obs)
   \<and> 50 \<le> totalEpochs (procInfo (fst (generateRealisticResults rnd obs eph n)))
   \<and> (POST rnd req n = Json200 res \<longrightarrow>
        (\<exists>oc vc. req = Form (FileField oc) (FileField vc)
           \<and> totalEpochs (procInfo res)
               = max 50 (length (fst (parseRinexObservation rnd oc n))))
        \<and> 50 \<le> totalEpochs (procInfo res))"
proof -
  have "\<exists>oc vc. req = Form (FileField oc) (FileField vc)
           \<and> totalEpochs (procInfo res) = max 50 (length (fst (parseRinexObservation rnd oc n)))"
    if h: "POST rnd req n = Json200 res"
  proof -
    from POST_Json200_D [OF h] obtain oc vc where
      r: "req = Form (FileField oc) (FileField vc)" "100 \<le> length oc" "100 \<le> length vc"
      by blast
    from h r have "res = fst (generateRealisticResults rnd (fst (parseRinexObservation rnd oc n))
                     (parseRinexNavigation vc) (snd (parseRinexObservation rnd oc n)))"
      by (simp add: POST_big)
    then show ?thesis using r(1) by (simp add: gen_totalEpochs)
  qed
  then show ?thesis by (auto simp: gen_totalEpochs)
qed

theorem totalEpochs_is_max_50_witness:
  "POST rndHalf (Form (FileField blankFile) (FileField blankFile)) 0
     = Json200 (fst (generateRealisticResults rndHalf [] [] 0))
   \<and> fst (parseRinexObservation rndHalf blankFile 0) = []
   \<and> totalEpochs (procInfo (fst (generateRealisticResults rndHalf [] [] 0))) = 50"
  using totalEpochs_is_max_50 [of rndHalf "[]" "[]" 0
          "Form (FileField blankFile) (FileField blankFile)"
          "fst (generateRealisticResults rndHalf [] [] 0)"]
  by (simp add: POST_blank parseObs_blankFile)

text \<open>
  C4 as stated fails: with every draw equal to one half, all consecutive distances
  of the 50 generated position fixes are below 100, and the returned list of
  position jumps is 16, 33, 42.
\<close>

theorem jumps_reported_without_any_jump:
  "consecutiveBelow (fst (generatePositions rndHalf 50 0))
   \<and> positionJumps (fst (generateRealisticResults rndHalf [] [] 0)) = [16, 33, 42]"
  by (simp add: generated_consecutiveBelow [OF inUnit_rndHalf]
        gen_jumps_fixed [OF inUnit_rndHalf])

text \<open>
  C4, amended. The detection loop flags exactly the epochs from 1 on whose distance
  from the previous fix is above 100, never epoch 0, and nothing when all
  consecutive distances are below 100. What it flags is returned when it is not
  empty; when it is empty, the returned list is 16, 33, 42. Epoch 0 is never
  returned. On the generated positions the loop never flags anything, so the
  returned list is always 16, 33, 42.
\<close>

theorem position_jumps_amended:
  "(i \<in> set (detectJumps ps) \<longleftrightarrow>
      1 \<le> i \<and> i < length ps \<and> distance (ps ! (i - 1)) (ps ! i) > 100)
   \<and> 0 \<notin> set (detectJumps ps)
   \<and> (consecutiveBelow ps \<longrightarrow> detectJumps ps = [])
   \<and> (detectJumps ps \<noteq> [] \<longrightarrow> fst (artificialJumps (detectJumps ps) ps) = detectJumps ps)
   \<and> (detectJumps ps = [] \<longrightarrow> fst (artificialJumps (detectJumps ps) ps) = [16, 33, 42])
   \<and> 0 \<notin> set (fst (artificialJumps (detectJumps ps) ps))
   \<and> (inUnit rnd \<longrightarrow>
        positionJumps (fst (generateRealisticResults rnd obs eph n)) = [16, 33, 42])"
proof -
  have a: "i \<in> set (detectJumps ps) \<longleftrightarrow>
      1 \<le> i \<and> i < length ps \<and> distance (ps ! (i - 1)) (ps ! i) > 100" for i
    by (auto simp: detectJumps_def)
  have b: "0 \<notin> set (detectJumps ps)" using a [of 0] by simp
  have c: "consecutiveBelow ps \<Longrightarrow> detectJumps ps = []"
    by (auto simp: consecutiveBelow_def detectJumps_def list_all_iff filter_empty_conv)
  have d: "0 \<notin> set (fst (artificialJumps (detectJumps ps) ps))"
    using b by (simp add: artificialJumps_def)
  show ?thesis using a b c d by (simp add: artificialJumps_def gen_jumps_fixed)
qed

theorem position_jumps_amended_witness:
  "detectJumps twoFixes = [1]
   \<and> fst (artificialJumps (detectJumps twoFixes) twoFixes) = [1]
   \<and> consecutiveBelow [fixAt 0, fixAt 50] \<and> detectJumps [fixAt 0, fixAt 50] = []
   \<and> fst (artificialJumps (detectJumps [fixAt 0, fixAt 50]) [fixAt 0, fixAt 50]) = [16, 33, 42]
   \<and> inUnit rndHalf
   \<and> positionJumps (fst (generateRealisticResults rndHalf [] [] 0)) = [16, 33, 42]"
  using position_jumps_amended [of 1 twoFixes rndHalf "[]" "[]" 0]
    position_jumps_amended [of 1 "[fixAt 0, fixAt 50]" rndHalf "[]" "[]" 0]
  by (simp add: detectJumps_twoFixes inUnit_rndHalf consecutiveBelow_def distance_fixAt)

text \<open>
  C8 as stated fails: a file of 100 blanks parses to no epoch, and the response has
  50 positions, 50 PDOP values, the jump flags 16, 33, 42, the satellites G01 to
  G10 and \<^verbatim>\<open>totalEpochs\<close> 50, none of which comes from the parsed input.
\<close>

theorem synthetic_result_on_zero_epochs:
  "POST rndHalf (Form (FileField blankFile) (FileField blankFile)) 0
     = Json200 (fst (generateRealisticResults rndHalf [] [] 0))
   \<and> fst (parseRinexObservation rndHalf blankFile 0) = []
   \<and> \<not> nothingFabricated [] (fst (generateRealisticResults rndHalf [] [] 0))
   \<and> length (positionData (fst (generateRealisticResults rndHalf [] [] 0))) = 50
   \<and> length (pdopValues (fst (generateRealisticResults rndHalf [] [] 0))) = 50
   \<and> positionJumps (fst (generateRealisticResults rndHalf [] [] 0)) = [16, 33, 42]
   \<and> map sv (satelliteHealth (fst (generateRealisticResults rndHalf [] [] 0))) = commonSats
   \<and> totalEpochs (procInfo (fst (generateRealisticResults rndHalf [] [] 0))) = 50"
  by (simp add: POST_blank parseObs_blankFile nothingFabricated_def gen_positionData_length
        gen_pdopValues_length gen_jumps_fixed [OF inUnit_rndHalf] gen_health_ids
        satelliteIds_Nil length_commonSats gen_totalEpochs)

text \<open>
  C8, amended. When no epoch was parsed, the result reports no insufficiency: it
  holds 50 generated epochs (positions 0 to 49, 50 PDOP values, 50 signal
  entries), the ten satellites G01 to G10, and the processing summary 50 epochs,
  10 satellites, 8 satellites per epoch, quality Good; with draws from 0 up to 1
  the jump flags are 16, 33, 42, the threat level is CRITICAL and the
  probability is 95.
\<close>

theorem zero_epochs_amended:
  "length (positionData (fst (generateRealisticResults rnd [] eph n))) = 50
   \<and> map pos_epoch (positionData (fst (generateRealisticResults rnd [] eph n))) = [0 ..< 50]
   \<and> length (pdopValues (fst (generateRealisticResults rnd [] eph n))) = 50
   \<and> length (signalData (fst (generateRealisticResults rnd [] eph n))) = 50
   \<and> map sv (satelliteHealth (fst (generateRealisticResults rnd [] eph n))) = commonSats
   \<and> procInfo (fst (generateRealisticResults rnd [] eph n))
       = \<lparr>totalEpochs = 50, totalSatellites = 10, avgSatellitesPerEpoch = 8,
          dataQuality = ''Good''\<rparr>
   \<and> (inUnit rnd \<longrightarrow>
        positionJumps (fst (generateRealisticResults rnd [] eph n)) = [16, 33, 42]
        \<and> threatLevel (fst (generateRealisticResults rnd [] eph n)) = CRITICAL
        \<and> spoofingProbability (fst (generateRealisticResults rnd [] eph n)) = 95)"
  by (simp add: gen_positionData_length gen_epochs gen_pdopValues_length gen_signalData_length
        gen_health_ids satelliteIds_Nil length_commonSats gen_procInfo mkProcessingInfo_def
        gen_jumps_fixed gen_critical(1) gen_saturated_Nil)

theorem zero_epochs_amended_witness:
  "inUnit rndHalf
   \<and> length (positionData (fst (generateRealisticResults rndHalf [] [] 0))) = 50
   \<and> positionJumps (fst (generateRealisticResults rndHalf [] [] 0)) = [16, 33, 42]
   \<and> threatLevel (fst (generateRealisticResults rndHalf [] [] 0)) = CRITICAL
   \<and> spoofingProbability (fst (generateRealisticResults rndHalf [] [] 0)) = 95"
  using zero_epochs_amended [of rndHalf "[]" 0]
  by (simp add: inUnit_rndHalf)







text \<open>
  C6. A year token of two digits is mapped to its value plus 2000 when the value is
  below 80 and to its value plus 1900 otherwise. The version 2 observation
  parser applies this rule to the first token of every epoch line, which is
  always two digits, and the version 2 navigation parser to the second token of
  every block header line. The tokens 79, 85 and 00 give 2079, 1985 and 2000.
\<close>

theorem two_digit_year_pivot:
  "(isDigit a \<and> isDigit b \<longrightarrow>
      yearPivot (parseInt [a, b]) =
        Some (if 10 * digitVal a + digitVal b < 80
              then int (10 * digitVal a + digitVal b) + 2000
              else int (10 * digitVal a + digitVal b) + 1900))
   \<and> (epochLinePattern line \<longrightarrow>
        map_option year (o_currentEpoch (obsLineV2 rnd st line))
          = Some (yearPivot (parseIntAt (splitWs (trim line)) 0))
        \<and> (\<exists>c d. isDigit c \<and> isDigit d \<and> elemAt (splitWs (trim line)) 0 = Some [c, d]))
   \<and> (\<not> atLeast3 (n_rinexVersion nst) \<and> length nline > 2 \<and> navLinePattern nline \<longrightarrow>
        map_option (\<lambda>d. toc_year (toc d)) (n_satData (navBlockStart nst nline))
          = Some (yearPivot (parseIntAt (splitWs (trim nline)) 1)))
   \<and> yearPivot (parseInt ''79'') = Some 2079
   \<and> yearPivot (parseInt ''85'') = Some 1985
   \<and> yearPivot (parseInt ''00'') = Some 2000"
  using two_digit_pivot [of a b] obsLineV2_year [of line rnd st] epochLine_first_token [of line]
    navBlockStart_year [of nst nline] pivot_examples
  by blast

theorem two_digit_year_pivot_witness:
  "isDigit (CHR ''7'') \<and> isDigit (CHR ''9'')
   \<and> yearPivot (parseInt ''79'') = Some 2079
   \<and> epochLinePattern '' 79  1 15  0  0  0.0000000  0  1 G01''
   \<and> map_option year
        (o_currentEpoch (obsLineV2 rndHalf (obsInit 0) '' 79  1 15  0  0  0.0000000  0  1 G01''))
       = Some (Some 2079)
   \<and> \<not> atLeast3 (n_rinexVersion navInit)
   \<and> length '' 1 85  1 15  0  0  0.0 1.0e-04 2.0e-12 0.0'' > 2
   \<and> navLinePattern '' 1 85  1 15  0  0  0.0 1.0e-04 2.0e-12 0.0''
   \<and> map_option (\<lambda>d. toc_year (toc d))
        (n_satData (navBlockStart navInit '' 1 85  1 15  0  0  0.0 1.0e-04 2.0e-12 0.0''))
       = Some (Some 1985)"
  using two_digit_year_pivot [of "CHR ''7''" "CHR ''9''"
          "'' 79  1 15  0  0  0.0000000  0  1 G01''" rndHalf "obsInit 0" navInit
          "'' 1 85  1 15  0  0  0.0 1.0e-04 2.0e-12 0.0''"]
  by (simp add: epochLine_example epochLine_parts navLine_example navLine_parts parseIntAt_def
        elemAt_def pivot_examples navInit_def)




end
